theory Spec2Isabelle
  imports Complex_Main
begin

section \<open>Numbers, vectors and matrices\<close>

text \<open>
  The filter of \<^verbatim>\<open>src/ukf.cpp\<close> computes on \<^verbatim>\<open>double\<close> (and, while it
  initialises, on \<^verbatim>\<open>float\<close>). Both are read here as the real numbers they stand
  for: rounding, NaN and the infinities are outside this development. Where the source
  divides, a statement below that depends on the quotient says whether the divisor is
  zero (HOL's \<open>x / 0 = 0\<close> is not what the machine does there).

  An Eigen \<^verbatim>\<open>VectorXd\<close> is a list of reals. A square \<^verbatim>\<open>MatrixXd\<close>
  (\<^verbatim>\<open>P_\<close>, \<^verbatim>\<open>P_aug_\<close>, \<^verbatim>\<open>S_\<close>, \<^verbatim>\<open>R_radar_\<close>, ...) is the list of
  its rows. The three sigma-point matrices \<^verbatim>\<open>Xsig_aug_\<close>, \<^verbatim>\<open>Xsig_pred_\<close> and
  \<^verbatim>\<open>Zsig_\<close>, which the source only ever reads and writes one column at a time, are
  the list of their columns: element \<open>i\<close> is \<^verbatim>\<open>.col(i)\<close>, and
  \<^verbatim>\<open>Xsig_pred_(r,i)\<close> is \<open>Xsig_pred_ ! i ! r\<close>.
\<close>

type_synonym vec = "real list"
type_synonym mat = "real list list"
type_synonym sigma_points = "real list list"

definition vadd :: "vec \<Rightarrow> vec \<Rightarrow> vec" where
  "vadd a b = map2 (+) a b"

definition vsub :: "vec \<Rightarrow> vec \<Rightarrow> vec" where
  "vsub a b = map2 (-) a b"

definition smult :: "real \<Rightarrow> vec \<Rightarrow> vec" where
  "smult c v = map (\<lambda>x. c * x) v"

definition dot :: "vec \<Rightarrow> vec \<Rightarrow> real" where
  "dot a b = sum_list (map2 (*) a b)"

definition outer :: "vec \<Rightarrow> vec \<Rightarrow> mat" where
  \<comment> \<open>\<^verbatim>\<open>a * b.transpose()\<close>\<close>
  "outer a b = map (\<lambda>x. map (\<lambda>y. x * y) b) a"

definition madd :: "mat \<Rightarrow> mat \<Rightarrow> mat" where
  "madd A B = map2 vadd A B"

definition msub :: "mat \<Rightarrow> mat \<Rightarrow> mat" where
  "msub A B = map2 vsub A B"

definition mcol :: "mat \<Rightarrow> nat \<Rightarrow> vec" where
  \<comment> \<open>\<^verbatim>\<open>A.col(j)\<close> of a matrix kept by rows\<close>
  "mcol A j = map (\<lambda>r. r ! j) A"

definition ncols :: "mat \<Rightarrow> nat" where
  "ncols A = (case A of [] \<Rightarrow> 0 | r # _ \<Rightarrow> length r)"

definition mat_transpose :: "mat \<Rightarrow> mat" where
  "mat_transpose A = map (mcol A) [0..<ncols A]"

definition mat_vec :: "mat \<Rightarrow> vec \<Rightarrow> vec" where
  "mat_vec A v = map (\<lambda>r. dot r v) A"

definition vec_mat :: "vec \<Rightarrow> mat \<Rightarrow> vec" where
  \<comment> \<open>\<^verbatim>\<open>v.transpose() * A\<close>\<close>
  "vec_mat v A = map (\<lambda>j. dot v (mcol A j)) [0..<ncols A]"

definition mmul :: "mat \<Rightarrow> mat \<Rightarrow> mat" where
  "mmul A B = map (\<lambda>r. vec_mat r B) A"

definition fill0 :: "vec \<Rightarrow> vec" where
  \<comment> \<open>\<^verbatim>\<open>v.fill(0.0)\<close>: the size stays\<close>
  "fill0 v = map (\<lambda>_. 0) v"

definition mfill0 :: "mat \<Rightarrow> mat" where
  "mfill0 A = map fill0 A"

definition new_vec :: "nat \<Rightarrow> vec" where
  \<comment> \<open>\<^verbatim>\<open>VectorXd(n)\<close>. Eigen leaves the fresh entries unspecified; the source
      overwrites every one of them before it reads it, and the model starts them at 0.\<close>
  "new_vec n = replicate n 0"

definition new_mat :: "nat \<Rightarrow> nat \<Rightarrow> mat" where
  "new_mat r c = replicate r (new_vec c)"

definition mat_set :: "mat \<Rightarrow> nat \<Rightarrow> nat \<Rightarrow> real \<Rightarrow> mat" where
  \<comment> \<open>\<^verbatim>\<open>A(i,j) = v\<close>\<close>
  "mat_set A i j v = A[i := (A ! i)[j := v]]"

definition set_topLeftCorner :: "mat \<Rightarrow> nat \<Rightarrow> mat \<Rightarrow> mat" where
  \<comment> \<open>\<^verbatim>\<open>A.topLeftCorner(n,n) = B\<close>\<close>
  "set_topLeftCorner A n B =
     map (\<lambda>i. map (\<lambda>j. if i < n \<and> j < n then B ! i ! j else A ! i ! j) [0..<length (A ! i)])
       [0..<length A]"

subsection \<open>Library routines the source calls\<close>

text \<open>
  \<^verbatim>\<open>atan2\<close> of the C library, by its case table.
\<close>

definition atan2 :: "real \<Rightarrow> real \<Rightarrow> real" where
  "atan2 y x =
     (if 0 < x then arctan (y / x)
      else if x < 0 then (if 0 \<le> y then arctan (y / x) + pi else arctan (y / x) - pi)
      else if 0 < y then pi / 2
      else if y < 0 then - (pi / 2)
      else 0)"

text \<open>
  \<^verbatim>\<open>A.llt().matrixL()\<close>: Eigen's Cholesky factorisation, which for matrices this small
  runs its unblocked, in-place, column-by-column loop. It reads the lower triangle of
  \<open>A\<close> only. At column \<open>k\<close> it forms the pivot \<open>x = A(k,k) - \<Sum>j<k. L(k,j)\<^sup>2\<close>;
  when \<open>x \<le> 0\<close> it stops (and records a numerical issue that the source never asks
  for), leaving column \<open>k\<close> and the columns after it as they were in \<open>A\<close>;
  otherwise \<open>L(k,k) = sqrt x\<close> and
  \<open>L(i,k) = (A(i,k) - \<Sum>j<k. L(i,j) * L(k,j)) / sqrt x\<close> below the diagonal.
  \<^verbatim>\<open>matrixL()\<close> is the lower triangle of what the loop left.
  \<open>cols\<close> holds the columns finished so far.
\<close>

definition llt_pivot :: "mat \<Rightarrow> vec list \<Rightarrow> nat \<Rightarrow> real" where
  "llt_pivot A cols k = A ! k ! k - sum_list (map (\<lambda>c. c ! k * c ! k) cols)"

definition llt_column :: "mat \<Rightarrow> vec list \<Rightarrow> nat \<Rightarrow> real \<Rightarrow> vec" where
  "llt_column A cols k d =
     map (\<lambda>i. if i < k then 0
              else if i = k then d
              else (A ! i ! k - sum_list (map (\<lambda>c. c ! i * c ! k) cols)) / d)
       [0..<length A]"

definition lower_column :: "mat \<Rightarrow> nat \<Rightarrow> vec" where
  "lower_column A k = map (\<lambda>i. if i < k then 0 else A ! i ! k) [0..<length A]"

fun llt_unblocked :: "mat \<Rightarrow> vec list \<Rightarrow> nat \<Rightarrow> vec list" where
  "llt_unblocked A cols 0 = cols"
| "llt_unblocked A cols (Suc m) =
     (let k = length cols; x = llt_pivot A cols k
      in if x \<le> 0 then cols @ map (lower_column A) [k..<length A]
         else llt_unblocked A (cols @ [llt_column A cols k (sqrt x)]) m)"

definition llt_matrixL :: "mat \<Rightarrow> mat" where
  "llt_matrixL A =
     (let cols = llt_unblocked A [] (length A)
      in map (\<lambda>i. map (\<lambda>c. c ! i) cols) [0..<length A])"

text \<open>
  \<^verbatim>\<open>A.llt().info() == Eigen::Success\<close>: the loop ran through every column, each
  pivot positive. The source never asks.
\<close>

fun llt_positive_pivots :: "mat \<Rightarrow> vec list \<Rightarrow> nat \<Rightarrow> bool" where
  "llt_positive_pivots A cols 0 = True"
| "llt_positive_pivots A cols (Suc m) =
     (let k = length cols; x = llt_pivot A cols k
      in if x \<le> 0 then False
         else llt_positive_pivots A (cols @ [llt_column A cols k (sqrt x)]) m)"

definition llt_info_Success :: "mat \<Rightarrow> bool" where
  "llt_info_Success A = llt_positive_pivots A [] (length A)"

text \<open>
  \<^verbatim>\<open>S.inverse()\<close> for the two sizes the source uses it at (\<^verbatim>\<open>n_z\<close> is 2 or 3),
  as the quotient of the adjugate by the determinant. For a determinant other than zero
  this is the matrix Eigen's elimination computes, up to rounding. For a singular \<open>S\<close>
  Eigen performs no check and returns entries that are not finite; no statement below
  reads \<open>inverse_mat\<close> as an inverse there.
\<close>

definition determinant :: "mat \<Rightarrow> real" where
  "determinant M =
     (if length M = 2 then M ! 0 ! 0 * M ! 1 ! 1 - M ! 0 ! 1 * M ! 1 ! 0
      else
        M ! 0 ! 0 * (M ! 1 ! 1 * M ! 2 ! 2 - M ! 1 ! 2 * M ! 2 ! 1)
        - M ! 0 ! 1 * (M ! 1 ! 0 * M ! 2 ! 2 - M ! 1 ! 2 * M ! 2 ! 0)
        + M ! 0 ! 2 * (M ! 1 ! 0 * M ! 2 ! 1 - M ! 1 ! 1 * M ! 2 ! 0))"

definition adjugate :: "mat \<Rightarrow> mat" where
  "adjugate M =
     (if length M = 2 then
        [[M ! 1 ! 1, - (M ! 0 ! 1)],
         [- (M ! 1 ! 0), M ! 0 ! 0]]
      else
        [[M ! 1 ! 1 * M ! 2 ! 2 - M ! 1 ! 2 * M ! 2 ! 1,
          M ! 0 ! 2 * M ! 2 ! 1 - M ! 0 ! 1 * M ! 2 ! 2,
          M ! 0 ! 1 * M ! 1 ! 2 - M ! 0 ! 2 * M ! 1 ! 1],
         [M ! 1 ! 2 * M ! 2 ! 0 - M ! 1 ! 0 * M ! 2 ! 2,
          M ! 0 ! 0 * M ! 2 ! 2 - M ! 0 ! 2 * M ! 2 ! 0,
          M ! 0 ! 2 * M ! 1 ! 0 - M ! 0 ! 0 * M ! 1 ! 2],
         [M ! 1 ! 0 * M ! 2 ! 1 - M ! 1 ! 1 * M ! 2 ! 0,
          M ! 0 ! 1 * M ! 2 ! 0 - M ! 0 ! 0 * M ! 2 ! 1,
          M ! 0 ! 0 * M ! 1 ! 1 - M ! 0 ! 1 * M ! 1 ! 0]])"

definition inverse_mat :: "mat \<Rightarrow> mat" where
  "inverse_mat M = map (map (\<lambda>a. a / determinant M)) (adjugate M)"

section \<open>Angle normalisation\<close>

text \<open>
  The source repeats the same two loops wherever it forms an angle difference:
  \<^verbatim>\<open>while (a > M_PI) a -= 2.*M_PI;  while (a < -M_PI) a += 2.*M_PI;\<close>
  Each loop is a recursive function over the reals; both terminate on every real.
\<close>

function while_above_pi :: "real \<Rightarrow> real" where
  "while_above_pi a = (if a > pi then while_above_pi (a - 2 * pi) else a)"
  by pat_completeness auto
termination
proof (relation "measure (\<lambda>a. nat \<lceil>(a - pi) / (2 * pi)\<rceil>)")
  show "wf (measure (\<lambda>a. nat \<lceil>(a - pi) / (2 * pi)\<rceil>))"
    by simp
next
  fix a :: real
  assume gt: "pi < a"
  have shift: "(a - 2 * pi - pi) / (2 * pi) = (a - pi) / (2 * pi) - 1"
    by (simp add: field_simps)
  have pos: "0 < (a - pi) / (2 * pi)"
    using gt by simp
  then have ceil_pos: "0 < \<lceil>(a - pi) / (2 * pi)\<rceil>"
    by linarith
  have step: "\<lceil>(a - 2 * pi - pi) / (2 * pi)\<rceil> = \<lceil>(a - pi) / (2 * pi)\<rceil> - 1"
    unfolding shift by (rule ceiling_diff_one)
  show "(a - 2 * pi, a) \<in> measure (\<lambda>a. nat \<lceil>(a - pi) / (2 * pi)\<rceil>)"
    unfolding in_measure step using ceil_pos by linarith
qed

function while_below_minus_pi :: "real \<Rightarrow> real" where
  "while_below_minus_pi a = (if a < - pi then while_below_minus_pi (a + 2 * pi) else a)"
  by pat_completeness auto
termination
proof (relation "measure (\<lambda>a. nat \<lceil>(- pi - a) / (2 * pi)\<rceil>)")
  show "wf (measure (\<lambda>a. nat \<lceil>(- pi - a) / (2 * pi)\<rceil>))"
    by simp
next
  fix a :: real
  assume lt: "a < - pi"
  have shift: "(- pi - (a + 2 * pi)) / (2 * pi) = (- pi - a) / (2 * pi) - 1"
    by (simp add: field_simps)
  have pos: "0 < (- pi - a) / (2 * pi)"
    using lt by simp
  then have ceil_pos: "0 < \<lceil>(- pi - a) / (2 * pi)\<rceil>"
    by linarith
  have step: "\<lceil>(- pi - (a + 2 * pi)) / (2 * pi)\<rceil> = \<lceil>(- pi - a) / (2 * pi)\<rceil> - 1"
    unfolding shift by (rule ceiling_diff_one)
  show "(a + 2 * pi, a) \<in> measure (\<lambda>a. nat \<lceil>(- pi - a) / (2 * pi)\<rceil>)"
    unfolding in_measure step using ceil_pos by linarith
qed

declare while_above_pi.simps [simp del]
declare while_below_minus_pi.simps [simp del]

definition angle_normalization :: "real \<Rightarrow> real" where
  "angle_normalization a = while_below_minus_pi (while_above_pi a)"

section \<open>The filter object\<close>

text \<open>
  The members of \<^verbatim>\<open>class UKF\<close> that \<^verbatim>\<open>ukf.cpp\<close> reads or writes. The source
  ends member names in an underscore, which Isabelle keeps for its own names, so each
  such member carries a prime after it. The integer members are C++ \<^verbatim>\<open>int\<close>s, the
  time stamps are integer microseconds, and \<^verbatim>\<open>lambda_\<close> is a \<^verbatim>\<open>double\<close>
  (the class declaration is in \<^verbatim>\<open>ukf.h\<close>).
\<close>

datatype SensorType = LASER | RADAR

record MeasurementPackage =
  timestamp_' :: int
  sensor_type_' :: SensorType
  raw_measurements_' :: vec

record UKF =
  is_initialized_' :: bool
  use_laser_' :: bool
  use_radar_' :: bool
  n_x_' :: int
  n_aug_' :: int
  x_' :: vec
  P_' :: mat
  std_a_' :: real
  std_yawdd_' :: real
  std_laspx_' :: real
  std_laspy_' :: real
  std_radr_' :: real
  std_radphi_' :: real
  std_radrd_' :: real
  lambda_' :: real
  x_aug_' :: vec
  P_aug_' :: mat
  n_sigma_pts_' :: int
  Xsig_pred_' :: sigma_points
  Xsig_aug_' :: sigma_points
  weights_' :: vec
  R_radar_' :: mat
  R_lidar_' :: mat
  previous_timestamp_' :: int
  n_z :: int
  Zsig_' :: sigma_points
  z_pred_' :: vec
  S_' :: mat
  NIS_lidar :: real
  NIS_radar :: real

definition sigma_range :: "UKF \<Rightarrow> nat list" where
  \<comment> \<open>\<^verbatim>\<open>for (int i = 0; i < 2 * n_aug_ + 1; i++)\<close>\<close>
  "sigma_range this = [0..<nat (2 * n_aug_' this + 1)]"

subsection \<open>Constructor\<close>

text \<open>
  \<^verbatim>\<open>UKF::UKF()\<close> assigns the members below and no others; the argument is the
  object before construction, and the members the constructor does not mention keep
  whatever they held.
\<close>

definition UKF_constructor :: "UKF \<Rightarrow> UKF" where
  "UKF_constructor this =
     (let s = this\<lparr>use_laser_' := True, use_radar_' := True, n_x_' := 5, n_aug_' := 7\<rparr>;
          s = s\<lparr>x_' := new_vec (nat (n_x_' s)),
                P_' := new_mat (nat (n_x_' s)) (nat (n_x_' s)),
                std_a_' := 6, std_yawdd_' := pi / 6,
                std_laspx_' := 0.15, std_laspy_' := 0.15,
                std_radr_' := 0.3, std_radphi_' := 0.03, std_radrd_' := 0.3\<rparr>;
          s = s\<lparr>lambda_' := real_of_int (3 - n_x_' s)\<rparr>;
          s = s\<lparr>x_' := [0, 0, pi / 4, 0.30, 0.18],
                P_' := [[0.3, 0, 0, 0, 0],
                        [0, 0.2, 0, 0, 0],
                        [0, 0, 0.3, 0, 0],
                        [0, 0, 0, 1, 0],
                        [0, 0, 0, 0, 1]]\<rparr>;
          s = s\<lparr>x_aug_' := new_vec 7,
                P_aug_' := new_mat (nat (n_aug_' s)) (nat (n_aug_' s))\<rparr>;
          s = s\<lparr>n_sigma_pts_' := 2 * n_aug_' s + 1\<rparr>;
          s = s\<lparr>Xsig_pred_' := replicate (nat (n_sigma_pts_' s)) (new_vec (nat (n_x_' s))),
                Xsig_aug_' := replicate (nat (n_sigma_pts_' s)) (new_vec (nat (n_aug_' s))),
                weights_' := new_vec (nat (n_sigma_pts_' s))\<rparr>;
          s = s\<lparr>R_radar_' := [[std_radr_' s * std_radr_' s, 0, 0],
                              [0, std_radphi_' s * std_radphi_' s, 0],
                              [0, 0, std_radrd_' s * std_radrd_' s]],
                R_lidar_' := [[std_laspx_' s * std_laspx_' s, 0],
                              [0, std_laspy_' s * std_laspy_' s]]\<rparr>;
          weights_0 = lambda_' s / (lambda_' s + real_of_int (n_aug_' s));
          s = s\<lparr>weights_' := (weights_' s)[0 := weights_0]\<rparr>
      in s\<lparr>weights_' :=
             fold (\<lambda>i w. let weight = 0.5 / (real_of_int (n_aug_' s) + lambda_' s)
                         in w[i := weight])
               [1..<nat (2 * n_aug_' s + 1)] (weights_' s)\<rparr>)"

subsection \<open>Sigma points\<close>

definition generateSigmaPoints :: "UKF \<Rightarrow> UKF" where
  "generateSigmaPoints this =
     (let L = llt_matrixL (P_aug_' this);
          s = this\<lparr>Xsig_aug_' := (Xsig_aug_' this)[0 := x_aug_' this]\<rparr>;
          c = sqrt (lambda_' s + real_of_int (n_aug_' s))
      in s\<lparr>Xsig_aug_' :=
             fold (\<lambda>i X.
                    (X[i + 1 := vadd (x_aug_' s) (smult c (mcol L i))])
                     [i + 1 + nat (n_aug_' s) := vsub (x_aug_' s) (smult c (mcol L i))])
               [0..<nat (n_aug_' s)] (Xsig_aug_' s)\<rparr>)"

text \<open>
  The body of the loop of \<^verbatim>\<open>predictSigmaPoints\<close>: one augmented sigma point to one
  predicted sigma point. The division by \<open>yawd\<close> is behind \<open>\<bar>yawd\<bar> > 0.001\<close>.
\<close>

definition predictSigmaPoint :: "real \<Rightarrow> vec \<Rightarrow> vec" where
  "predictSigmaPoint delta_t xa =
     (let p_x = xa ! 0; p_y = xa ! 1; v = xa ! 2; yaw = xa ! 3; yawd = xa ! 4;
          nu_a = xa ! 5; nu_yawdd = xa ! 6;
          px_p = (if \<bar>yawd\<bar> > 0.001
                  then p_x + v / yawd * (sin (yaw + yawd * delta_t) - sin yaw)
                  else p_x + v * delta_t * cos yaw);
          py_p = (if \<bar>yawd\<bar> > 0.001
                  then p_y + v / yawd * (cos yaw - cos (yaw + yawd * delta_t))
                  else p_y + v * delta_t * sin yaw);
          v_p = v;
          yaw_p = yaw + yawd * delta_t;
          yawd_p = yawd;
          px_p = px_p + 0.5 * nu_a * delta_t * delta_t * cos yaw;
          py_p = py_p + 0.5 * nu_a * delta_t * delta_t * sin yaw;
          v_p = v_p + nu_a * delta_t;
          yaw_p = yaw_p + 0.5 * nu_yawdd * delta_t * delta_t;
          yawd_p = yawd_p + nu_yawdd * delta_t
      in [px_p, py_p, v_p, yaw_p, yawd_p])"

definition predictSigmaPoints :: "UKF \<Rightarrow> real \<Rightarrow> UKF" where
  "predictSigmaPoints this delta_t =
     this\<lparr>Xsig_pred_' :=
             fold (\<lambda>i X. X[i := predictSigmaPoint delta_t (Xsig_aug_' this ! i)])
               (sigma_range this) (Xsig_pred_' this)\<rparr>"

subsection \<open>Prediction\<close>

definition set_head :: "vec \<Rightarrow> nat \<Rightarrow> vec \<Rightarrow> vec" where
  \<comment> \<open>\<^verbatim>\<open>v.head(n) = w\<close>, for a \<open>w\<close> of \<open>n\<close> entries\<close>
  "set_head v n w = take n w @ drop n v"

definition Prediction :: "UKF \<Rightarrow> real \<Rightarrow> UKF" where
  "Prediction this delta_t =
     (let s = this\<lparr>x_aug_' := ((set_head (x_aug_' this) 5 (x_' this))[5 := 0])[6 := 0]\<rparr>;
          s = s\<lparr>P_aug_' := mfill0 (P_aug_' s)\<rparr>;
          s = s\<lparr>P_aug_' := set_topLeftCorner (P_aug_' s) (nat (n_x_' s)) (P_' s)\<rparr>;
          s = s\<lparr>P_aug_' := mat_set (P_aug_' s) 5 5 (std_a_' s * std_a_' s)\<rparr>;
          s = s\<lparr>P_aug_' := mat_set (P_aug_' s) 6 6 (std_yawdd_' s * std_yawdd_' s)\<rparr>;
          s = generateSigmaPoints s;
          s = predictSigmaPoints s delta_t;
          s = s\<lparr>x_' := fill0 (x_' s)\<rparr>;
          s = s\<lparr>x_' := fold (\<lambda>i x. vadd x (smult (weights_' s ! i) (Xsig_pred_' s ! i)))
                          (sigma_range s) (x_' s)\<rparr>;
          s = s\<lparr>P_' := mfill0 (P_' s)\<rparr>
      in s\<lparr>P_' :=
             fold (\<lambda>i P.
                    let x_diff = vsub (Xsig_pred_' s ! i) (x_' s);
                        x_diff = x_diff[3 := angle_normalization (x_diff ! 3)]
                    in madd P (outer (smult (weights_' s ! i) x_diff) x_diff))
               (sigma_range s) (P_' s)\<rparr>)"

subsection \<open>Measurement prediction and update\<close>

definition predictMeasurment :: "UKF \<Rightarrow> mat \<Rightarrow> UKF" where
  "predictMeasurment this R =
     (let s = this\<lparr>z_pred_' := fill0 (z_pred_' this)\<rparr>;
          s = s\<lparr>z_pred_' := fold (\<lambda>i z. vadd z (smult (weights_' s ! i) (Zsig_' s ! i)))
                               (sigma_range s) (z_pred_' s)\<rparr>;
          s = s\<lparr>S_' := mfill0 (S_' s)\<rparr>;
          s = s\<lparr>S_' :=
                  fold (\<lambda>i S.
                         let z_diff = vsub (Zsig_' s ! i) (z_pred_' s);
                             z_diff = z_diff[1 := angle_normalization (z_diff ! 1)]
                         in madd S (outer (smult (weights_' s ! i) z_diff) z_diff))
                    (sigma_range s) (S_' s)\<rparr>
      in s\<lparr>S_' := madd (S_' s) R\<rparr>)"

text \<open>
  The locals \<^verbatim>\<open>Tc\<close>, \<^verbatim>\<open>K\<close> and \<^verbatim>\<open>z_diff\<close> of \<^verbatim>\<open>UpdateMeasurment\<close>, each as
  a function of what the source computes it from. The two loops on \<^verbatim>\<open>z_diff(1)\<close> run
  whatever the sensor type is.
\<close>

definition UpdateMeasurment_Tc :: "UKF \<Rightarrow> mat" where
  "UpdateMeasurment_Tc this =
     fold (\<lambda>i Tc.
            let z_diff = vsub (Zsig_' this ! i) (z_pred_' this);
                z_diff = z_diff[1 := angle_normalization (z_diff ! 1)];
                x_diff = vsub (Xsig_pred_' this ! i) (x_' this);
                x_diff = x_diff[3 := angle_normalization (x_diff ! 3)]
            in madd Tc (outer (smult (weights_' this ! i) x_diff) z_diff))
       (sigma_range this) (mfill0 (new_mat (nat (n_x_' this)) (nat (n_z this))))"

definition UpdateMeasurment_K :: "UKF \<Rightarrow> mat" where
  "UpdateMeasurment_K this = mmul (UpdateMeasurment_Tc this) (inverse_mat (S_' this))"

definition UpdateMeasurment_z_diff :: "UKF \<Rightarrow> MeasurementPackage \<Rightarrow> vec" where
  "UpdateMeasurment_z_diff this meas_package =
     (let z = raw_measurements_' meas_package;
          z_diff = vsub z (z_pred_' this)
      in z_diff[1 := angle_normalization (z_diff ! 1)])"

definition UpdateMeasurment :: "UKF \<Rightarrow> MeasurementPackage \<Rightarrow> UKF" where
  "UpdateMeasurment this meas_package =
     (let K = UpdateMeasurment_K this;
          z_diff = UpdateMeasurment_z_diff this meas_package;
          s = this\<lparr>x_' := vadd (x_' this) (mat_vec K z_diff)\<rparr>;
          s = s\<lparr>P_' := msub (P_' s) (mmul (mmul K (S_' s)) (mat_transpose K))\<rparr>;
          nis = dot (vec_mat z_diff (inverse_mat (S_' s))) z_diff
      in if sensor_type_' meas_package = LASER then s\<lparr>NIS_lidar := nis\<rparr>
         else s\<lparr>NIS_radar := nis\<rparr>)"

definition UpdateLidar :: "UKF \<Rightarrow> MeasurementPackage \<Rightarrow> UKF" where
  "UpdateLidar this meas_package =
     (let s = this\<lparr>n_z := 2\<rparr>;
          s = s\<lparr>Zsig_' := map (take (nat (n_z s)))
                             (take (nat (2 * n_aug_' s + 1)) (Xsig_pred_' s))\<rparr>;
          s = s\<lparr>z_pred_' := new_vec (nat (n_z s))\<rparr>;
          s = s\<lparr>S_' := new_mat (nat (n_z s)) (nat (n_z s))\<rparr>;
          s = predictMeasurment s (R_lidar_' s)
      in UpdateMeasurment s meas_package)"

text \<open>
  The radar measurement model, the body of the loop of \<^verbatim>\<open>UpdateRadar\<close>.
  \<open>radar_range\<close> is the expression \<^verbatim>\<open>sqrt(p_x*p_x + p_y*p_y)\<close>, which the source
  writes twice: as the range, and as the divisor of the range rate. Nothing stands
  between it and the division.
\<close>

definition radar_range :: "real \<Rightarrow> real \<Rightarrow> real" where
  "radar_range p_x p_y = sqrt (p_x * p_x + p_y * p_y)"

definition radar_point :: "vec \<Rightarrow> vec" where
  "radar_point xp =
     (let p_x = xp ! 0; p_y = xp ! 1; v = xp ! 2; yaw = xp ! 3;
          v1 = cos yaw * v;
          v2 = sin yaw * v
      in [radar_range p_x p_y,
          atan2 p_y p_x,
          (p_x * v1 + p_y * v2) / radar_range p_x p_y])"

definition UpdateRadar :: "UKF \<Rightarrow> MeasurementPackage \<Rightarrow> UKF" where
  "UpdateRadar this meas_package =
     (let s = this\<lparr>n_z := 3\<rparr>;
          s = s\<lparr>Zsig_' := replicate (nat (2 * n_aug_' s + 1)) (new_vec (nat (n_z s)))\<rparr>;
          s = s\<lparr>Zsig_' := fold (\<lambda>i Z. Z[i := radar_point (Xsig_pred_' s ! i)])
                             (sigma_range s) (Zsig_' s)\<rparr>;
          s = s\<lparr>z_pred_' := new_vec (nat (n_z s))\<rparr>;
          s = s\<lparr>S_' := new_mat (nat (n_z s)) (nat (n_z s))\<rparr>;
          s = predictMeasurment s (R_radar_' s)
      in UpdateMeasurment s meas_package)"

subsection \<open>ProcessMeasurement\<close>

text \<open>
  \<open>ProcessMeasurement_delta_t\<close> is the local \<^verbatim>\<open>delta_t\<close>. Neither
  \<^verbatim>\<open>use_laser_\<close> nor \<^verbatim>\<open>use_radar_\<close> is read anywhere in the function.
\<close>

definition ProcessMeasurement_delta_t :: "UKF \<Rightarrow> MeasurementPackage \<Rightarrow> real" where
  "ProcessMeasurement_delta_t this meas_package =
     real_of_int (timestamp_' meas_package - previous_timestamp_' this) / 1000000.0"

definition ProcessMeasurement :: "UKF \<Rightarrow> MeasurementPackage \<Rightarrow> UKF" where
  "ProcessMeasurement this meas_package =
     (if \<not> is_initialized_' this then
        (let s =
           (case sensor_type_' meas_package of
              RADAR \<Rightarrow>
                (let rawMeasurment = raw_measurements_' meas_package;
                     rho = rawMeasurment ! 0;
                     phi = rawMeasurment ! 1;
                     rhodot = rawMeasurment ! 2;
                     px = rho * cos phi;
                     py = rho * sin phi;
                     vx = rhodot * cos phi;
                     vy = rhodot * sin phi;
                     vel = sqrt (vx * vx + vy * vy)
                 in this\<lparr>x_' := [px, py, vel, 0, 0]\<rparr>)
            | LASER \<Rightarrow>
                (let rawMeasurment = raw_measurements_' meas_package;
                     px = rawMeasurment ! 0;
                     py = rawMeasurment ! 1;
                     px = (if \<bar>px\<bar> < 0.001 then 0.001 else px);
                     py = (if \<bar>py\<bar> < 0.001 then 0.001 else py)
                 in this\<lparr>x_' := [px, py, 0, 0, 0]\<rparr>))
         in s\<lparr>previous_timestamp_' := timestamp_' meas_package, is_initialized_' := True\<rparr>)
      else
        (let delta_t = ProcessMeasurement_delta_t this meas_package;
             s = this\<lparr>previous_timestamp_' := timestamp_' meas_package\<rparr>;
             s = Prediction s delta_t
         in if sensor_type_' meas_package = RADAR then UpdateRadar s meas_package
            else UpdateLidar s meas_package))"

subsection \<open>Auxiliary definitions for the proofs\<close>

text \<open>
  The two stretches of \<^verbatim>\<open>Prediction\<close> around its two calls, under names of their
  own: the lines that reset the augmented mean and covariance, and the lines that
  recombine the predicted sigma points. \<open>Prediction_phases\<close> below shows that
  \<open>Prediction\<close> is their composition with the two calls.
\<close>

definition Prediction_augment :: "UKF \<Rightarrow> UKF" where
  "Prediction_augment this =
     this\<lparr>x_aug_' := ((set_head (x_aug_' this) 5 (x_' this))[5 := 0])[6 := 0],
          P_aug_' :=
            mat_set
              (mat_set
                 (set_topLeftCorner (mfill0 (P_aug_' this)) (nat (n_x_' this)) (P_' this))
                 5 5 (std_a_' this * std_a_' this))
              6 6 (std_yawdd_' this * std_yawdd_' this)\<rparr>"

definition predicted_mean :: "UKF \<Rightarrow> vec" where
  "predicted_mean this =
     fold (\<lambda>i x. vadd x (smult (weights_' this ! i) (Xsig_pred_' this ! i)))
       (sigma_range this) (fill0 (x_' this))"

definition predicted_covariance :: "UKF \<Rightarrow> mat" where
  \<comment> \<open>reads \<open>x_'\<close> as the mean just predicted\<close>
  "predicted_covariance this =
     fold (\<lambda>i P.
            let x_diff = vsub (Xsig_pred_' this ! i) (x_' this);
                x_diff = x_diff[3 := angle_normalization (x_diff ! 3)]
            in madd P (outer (smult (weights_' this ! i) x_diff) x_diff))
       (sigma_range this) (mfill0 (P_' this))"

definition Prediction_recombine :: "UKF \<Rightarrow> UKF" where
  "Prediction_recombine this =
     (let s = this\<lparr>x_' := predicted_mean this\<rparr>
      in s\<lparr>P_' := predicted_covariance s\<rparr>)"

text \<open>
  The two recombinations of \<^verbatim>\<open>predictMeasurment\<close>, likewise.
\<close>

definition predictMeasurment_z_pred :: "UKF \<Rightarrow> vec" where
  "predictMeasurment_z_pred this =
     fold (\<lambda>i z. vadd z (smult (weights_' this ! i) (Zsig_' this ! i)))
       (sigma_range this) (fill0 (z_pred_' this))"

definition predictMeasurment_S :: "UKF \<Rightarrow> mat \<Rightarrow> mat" where
  \<comment> \<open>reads \<open>z_pred_'\<close> as the mean just predicted\<close>
  "predictMeasurment_S this R =
     madd
       (fold (\<lambda>i S.
               let z_diff = vsub (Zsig_' this ! i) (z_pred_' this);
                   z_diff = z_diff[1 := angle_normalization (z_diff ! 1)]
               in madd S (outer (smult (weights_' this ! i) z_diff) z_diff))
          (sigma_range this) (mfill0 (S_' this)))
       R"

text \<open>
  The filter as \<^verbatim>\<open>UpdateLidar\<close> and \<^verbatim>\<open>UpdateRadar\<close> hand it to
  \<^verbatim>\<open>predictMeasurment\<close>: the sigma points projected into the measurement space, and
  a fresh \<^verbatim>\<open>z_pred_\<close> and \<^verbatim>\<open>S_\<close>.
\<close>

definition UpdateLidar_project :: "UKF \<Rightarrow> UKF" where
  "UpdateLidar_project this =
     this\<lparr>n_z := 2,
          Zsig_' := map (take 2) (take (nat (2 * n_aug_' this + 1)) (Xsig_pred_' this)),
          z_pred_' := new_vec 2,
          S_' := new_mat 2 2\<rparr>"

definition UpdateRadar_project :: "UKF \<Rightarrow> UKF" where
  "UpdateRadar_project this =
     this\<lparr>n_z := 3,
          Zsig_' := fold (\<lambda>i Z. Z[i := radar_point (Xsig_pred_' this ! i)])
                      (sigma_range this)
                      (replicate (nat (2 * n_aug_' this + 1)) (new_vec 3)),
          z_pred_' := new_vec 3,
          S_' := new_mat 3 3\<rparr>"

definition measurement_predicted :: "UKF \<Rightarrow> MeasurementPackage \<Rightarrow> UKF" where
  \<comment> \<open>the filter as \<^verbatim>\<open>ProcessMeasurement\<close>, once initialised, hands it to
      \<^verbatim>\<open>UpdateMeasurment\<close>\<close>
  "measurement_predicted this meas_package =
     (let s = Prediction (this\<lparr>previous_timestamp_' := timestamp_' meas_package\<rparr>)
                (ProcessMeasurement_delta_t this meas_package)
      in if sensor_type_' meas_package = RADAR
         then predictMeasurment (UpdateRadar_project s) (R_radar_' s)
         else predictMeasurment (UpdateLidar_project s) (R_lidar_' s))"

text \<open>
  An object before its constructor has run, every member zero, empty or false; and the
  filter the constructor makes of it.
\<close>

definition UKF_fresh :: UKF where
  "UKF_fresh =
     \<lparr>is_initialized_' = False, use_laser_' = False, use_radar_' = False,
      n_x_' = 0, n_aug_' = 0, x_' = [], P_' = [],
      std_a_' = 0, std_yawdd_' = 0, std_laspx_' = 0, std_laspy_' = 0,
      std_radr_' = 0, std_radphi_' = 0, std_radrd_' = 0, lambda_' = 0,
      x_aug_' = [], P_aug_' = [], n_sigma_pts_' = 0,
      Xsig_pred_' = [], Xsig_aug_' = [], weights_' = [],
      R_radar_' = [], R_lidar_' = [], previous_timestamp_' = 0,
      n_z = 0, Zsig_' = [], z_pred_' = [], S_' = [],
      NIS_lidar = 0, NIS_radar = 0\<rparr>"

subsection \<open>A run of the filter\<close>

text \<open>
  A filter is constructed, initialised by a laser measurement of the position \<open>(1, 1)\<close>
  at time 0, and one second later handed a second laser measurement. The states the
  second call goes through are named, in the order of the source:
  the time stamp is stored, \<^verbatim>\<open>Prediction\<close> resets the augmented mean and covariance,
  generates and propagates the sigma points and recombines them, \<^verbatim>\<open>UpdateLidar\<close>
  projects them and calls \<^verbatim>\<open>predictMeasurment\<close>.
\<close>

definition first_laser :: MeasurementPackage where
  "first_laser = \<lparr>timestamp_' = 0, sensor_type_' = LASER, raw_measurements_' = [1, 1]\<rparr>"

definition second_laser :: MeasurementPackage where
  "second_laser =
     \<lparr>timestamp_' = 1000000, sensor_type_' = LASER, raw_measurements_' = [2, 1]\<rparr>"

definition far_laser :: MeasurementPackage where
  "far_laser =
     \<lparr>timestamp_' = 1000000, sensor_type_' = LASER, raw_measurements_' = [1, 6]\<rparr>"

definition laser_started :: UKF where
  "laser_started = ProcessMeasurement (UKF_constructor UKF_fresh) first_laser"

definition laser_stamped :: UKF where
  "laser_stamped = laser_started\<lparr>previous_timestamp_' := 1000000\<rparr>"

definition laser_augmented :: UKF where
  "laser_augmented = Prediction_augment laser_stamped"

definition laser_sigma :: UKF where
  "laser_sigma = generateSigmaPoints laser_augmented"

definition laser_propagated :: UKF where
  "laser_propagated = predictSigmaPoints laser_sigma 1"

definition laser_predicted :: UKF where
  "laser_predicted = Prediction_recombine laser_propagated"

definition laser_projected :: UKF where
  "laser_projected = UpdateLidar_project laser_predicted"

definition laser_measured :: UKF where
  "laser_measured = predictMeasurment laser_projected (R_lidar_' laser_predicted)"

text \<open>The matrices of that run.\<close>

definition P_aug_example :: mat where
  "P_aug_example =
     [[3 / 10, 0, 0, 0, 0, 0, 0],
      [0, 1 / 5, 0, 0, 0, 0, 0],
      [0, 0, 3 / 10, 0, 0, 0, 0],
      [0, 0, 0, 1, 0, 0, 0],
      [0, 0, 0, 0, 1, 0, 0],
      [0, 0, 0, 0, 0, 36, 0],
      [0, 0, 0, 0, 0, 0, pi * pi / 36]]"

definition L_example :: mat where
  "L_example =
     [[sqrt (3 / 10), 0, 0, 0, 0, 0, 0],
      [0, sqrt (1 / 5), 0, 0, 0, 0, 0],
      [0, 0, sqrt (3 / 10), 0, 0, 0, 0],
      [0, 0, 0, 1, 0, 0, 0],
      [0, 0, 0, 0, 1, 0, 0],
      [0, 0, 0, 0, 0, 6, 0],
      [0, 0, 0, 0, 0, 0, pi / 6]]"

definition Xsig_aug_example :: sigma_points where
  "Xsig_aug_example =
     [[1, 1, 0, 0, 0, 0, 0],
      [1 + sqrt (3 / 2), 1, 0, 0, 0, 0, 0],
      [1, 2, 0, 0, 0, 0, 0],
      [1, 1, sqrt (3 / 2), 0, 0, 0, 0],
      [1, 1, 0, sqrt 5, 0, 0, 0],
      [1, 1, 0, 0, sqrt 5, 0, 0],
      [1, 1, 0, 0, 0, sqrt 5 * 6, 0],
      [1, 1, 0, 0, 0, 0, sqrt 5 * (pi / 6)],
      [1 - sqrt (3 / 2), 1, 0, 0, 0, 0, 0],
      [1, 0, 0, 0, 0, 0, 0],
      [1, 1, - sqrt (3 / 2), 0, 0, 0, 0],
      [1, 1, 0, - sqrt 5, 0, 0, 0],
      [1, 1, 0, 0, - sqrt 5, 0, 0],
      [1, 1, 0, 0, 0, - (sqrt 5 * 6), 0],
      [1, 1, 0, 0, 0, 0, - (sqrt 5 * (pi / 6))]]"

definition Xsig_pred_example :: sigma_points where
  "Xsig_pred_example =
     [[1, 1, 0, 0, 0],
      [1 + sqrt (3 / 2), 1, 0, 0, 0],
      [1, 2, 0, 0, 0],
      [1 + sqrt (3 / 2), 1, sqrt (3 / 2), 0, 0],
      [1, 1, 0, sqrt 5, 0],
      [1, 1, 0, sqrt 5, sqrt 5],
      [1 + 3 * sqrt 5, 1, 6 * sqrt 5, 0, 0],
      [1, 1, 0, sqrt 5 * pi / 12, sqrt 5 * pi / 6],
      [1 - sqrt (3 / 2), 1, 0, 0, 0],
      [1, 0, 0, 0, 0],
      [1 - sqrt (3 / 2), 1, - sqrt (3 / 2), 0, 0],
      [1, 1, 0, - sqrt 5, 0],
      [1, 1, 0, - sqrt 5, - sqrt 5],
      [1 - 3 * sqrt 5, 1, - (6 * sqrt 5), 0, 0],
      [1, 1, 0, - (sqrt 5 * pi / 12), - (sqrt 5 * pi / 6)]]"

definition P_pred_example :: mat where
  "P_pred_example =
     [[48 / 5, 0, 183 / 10, 0, 0],
      [0, 1 / 5, 0, 0, 0],
      [183 / 10, 0, 363 / 10, 0, 0],
      [0, 0, 0, 2 + pi * pi / 144, 1 + pi * pi / 72],
      [0, 0, 0, 1 + pi * pi / 72, 1 + pi * pi / 36]]"

definition Zsig_example :: sigma_points where
  "Zsig_example = map (take 2) Xsig_pred_example"

definition S_example :: mat where
  "S_example = [[3849 / 400, 0], [0, 89 / 400]]"

definition K_example :: mat where
  "K_example = [[1280 / 1283, 0], [0, 80 / 89], [2440 / 1283, 0], [0, 0], [0, 0]]"

text \<open>
  A second filter is initialised by a radar measurement taken at 1 s, of an object at
  range 1, bearing 0 and range rate 1, and then handed a laser measurement stamped 0 s.
\<close>

definition first_radar :: MeasurementPackage where
  "first_radar =
     \<lparr>timestamp_' = 1000000, sensor_type_' = RADAR, raw_measurements_' = [1, 0, 1]\<rparr>"

definition late_laser :: MeasurementPackage where
  "late_laser = \<lparr>timestamp_' = 0, sensor_type_' = LASER, raw_measurements_' = [1, 0]\<rparr>"

definition radar_started :: UKF where
  "radar_started = ProcessMeasurement (UKF_constructor UKF_fresh) first_radar"

text \<open>A radar measurement for the second call of the first run.\<close>

definition second_radar :: MeasurementPackage where
  "second_radar =
     \<lparr>timestamp_' = 1000000, sensor_type_' = RADAR, raw_measurements_' = [1, 0, 0]\<rparr>"

text \<open>
  The first run again, on a filter whose \<^verbatim>\<open>use_laser_\<close> is switched off after
  construction.
\<close>

definition laser_only_off :: UKF where
  "laser_only_off =
     ProcessMeasurement ((UKF_constructor UKF_fresh)\<lparr>use_laser_' := False\<rparr>) first_laser"

text \<open>
  The first run again, from a belief covariance that is not positive definite: the
  variance of \<open>x\<close> is \<open>- 1\<close>. The states of the second call and its matrices are
  named as before.
\<close>

definition broken_started :: UKF where
  "broken_started =
     laser_started\<lparr>P_' := [[- 1, 0, 0, 0, 0],
                            [0, 1 / 5, 0, 0, 0],
                            [0, 0, 3 / 10, 0, 0],
                            [0, 0, 0, 1, 0],
                            [0, 0, 0, 0, 1]]\<rparr>"

definition broken_stamped :: UKF where
  "broken_stamped = broken_started\<lparr>previous_timestamp_' := 1000000\<rparr>"

definition broken_augmented :: UKF where
  "broken_augmented = Prediction_augment broken_stamped"

definition broken_sigma :: UKF where
  "broken_sigma = generateSigmaPoints broken_augmented"

definition broken_propagated :: UKF where
  "broken_propagated = predictSigmaPoints broken_sigma 1"

definition broken_predicted :: UKF where
  "broken_predicted = Prediction_recombine broken_propagated"

definition broken_projected :: UKF where
  "broken_projected = UpdateLidar_project broken_predicted"

definition broken_measured :: UKF where
  "broken_measured = predictMeasurment broken_projected (R_lidar_' broken_predicted)"

definition P_aug_broken :: mat where
  "P_aug_broken =
     [[- 1, 0, 0, 0, 0, 0, 0],
      [0, 1 / 5, 0, 0, 0, 0, 0],
      [0, 0, 3 / 10, 0, 0, 0, 0],
      [0, 0, 0, 1, 0, 0, 0],
      [0, 0, 0, 0, 1, 0, 0],
      [0, 0, 0, 0, 0, 36, 0],
      [0, 0, 0, 0, 0, 0, pi * pi / 36]]"

definition L_broken :: mat where
  "L_broken =
     [[- 1, 0, 0, 0, 0, 0, 0],
      [0, 1 / 5, 0, 0, 0, 0, 0],
      [0, 0, 3 / 10, 0, 0, 0, 0],
      [0, 0, 0, 1, 0, 0, 0],
      [0, 0, 0, 0, 1, 0, 0],
      [0, 0, 0, 0, 0, 36, 0],
      [0, 0, 0, 0, 0, 0, pi * pi / 36]]"

definition Xsig_aug_broken :: sigma_points where
  "Xsig_aug_broken =
     [[1, 1, 0, 0, 0, 0, 0],
      [1 - sqrt 5, 1, 0, 0, 0, 0, 0],
      [1, 1 + sqrt 5 / 5, 0, 0, 0, 0, 0],
      [1, 1, sqrt 5 * 3 / 10, 0, 0, 0, 0],
      [1, 1, 0, sqrt 5, 0, 0, 0],
      [1, 1, 0, 0, sqrt 5, 0, 0],
      [1, 1, 0, 0, 0, sqrt 5 * 36, 0],
      [1, 1, 0, 0, 0, 0, sqrt 5 * (pi * pi / 36)],
      [1 + sqrt 5, 1, 0, 0, 0, 0, 0],
      [1, 1 - sqrt 5 / 5, 0, 0, 0, 0, 0],
      [1, 1, - (sqrt 5 * 3 / 10), 0, 0, 0, 0],
      [1, 1, 0, - sqrt 5, 0, 0, 0],
      [1, 1, 0, 0, - sqrt 5, 0, 0],
      [1, 1, 0, 0, 0, - (sqrt 5 * 36), 0],
      [1, 1, 0, 0, 0, 0, - (sqrt 5 * (pi * pi / 36))]]"

definition Xsig_pred_broken :: sigma_points where
  "Xsig_pred_broken =
     [[1, 1, 0, 0, 0],
      [1 - sqrt 5, 1, 0, 0, 0],
      [1, 1 + sqrt 5 / 5, 0, 0, 0],
      [1 + sqrt 5 * 3 / 10, 1, sqrt 5 * 3 / 10, 0, 0],
      [1, 1, 0, sqrt 5, 0],
      [1, 1, 0, sqrt 5, sqrt 5],
      [1 + 18 * sqrt 5, 1, 36 * sqrt 5, 0, 0],
      [1, 1, 0, sqrt 5 * (pi * pi) / 72, sqrt 5 * (pi * pi) / 36],
      [1 + sqrt 5, 1, 0, 0, 0],
      [1, 1 - sqrt 5 / 5, 0, 0, 0],
      [1 - sqrt 5 * 3 / 10, 1, - (sqrt 5 * 3 / 10), 0, 0],
      [1, 1, 0, - sqrt 5, 0],
      [1, 1, 0, - sqrt 5, - sqrt 5],
      [1 - 18 * sqrt 5, 1, - (36 * sqrt 5), 0, 0],
      [1, 1, 0, - (sqrt 5 * (pi * pi) / 72), - (sqrt 5 * (pi * pi) / 36)]]"

definition P_pred_broken :: mat where
  "P_pred_broken =
     [[32509 / 100, 0, 64809 / 100, 0, 0],
      [0, 1 / 25, 0, 0, 0],
      [64809 / 100, 0, 129609 / 100, 0, 0],
      [0, 0, 0, 2 + pi * pi * pi * pi / 5184, 1 + pi * pi * pi * pi / 2592],
      [0, 0, 0, 1 + pi * pi * pi * pi / 2592, 1 + pi * pi * pi * pi / 1296]]"

definition Zsig_broken :: sigma_points where
  "Zsig_broken = map (take 2) Xsig_pred_broken"

definition S_broken :: mat where
  "S_broken = [[26009 / 80, 0], [0, 1 / 16]]"

definition K_broken :: mat where
  "K_broken = [[130036 / 130045, 0], [0, 16 / 25], [259236 / 130045, 0], [0, 0], [0, 0]]"


section \<open>Lists of a known length\<close>

lemma upt_0_15: "[0..<15] = [0, 1, 2, 3, 4, 5, 6, 7, 8, 9, 10, 11, 12, 13, 14]"
  by (simp add: upt_rec)

lemma upt_1_15: "[Suc 0..<15] = [1, 2, 3, 4, 5, 6, 7, 8, 9, 10, 11, 12, 13, 14]"
  by (simp add: upt_rec)

lemma upt_0_7: "[0..<7] = [0, 1, 2, 3, 4, 5, 6]"
  by (simp add: upt_rec)

lemma upt_0_5: "[0..<5] = [0, 1, 2, 3, 4]"
  by (simp add: upt_rec)

lemma replicate_15: "replicate 15 x = [x, x, x, x, x, x, x, x, x, x, x, x, x, x, x]"
  by (simp add: numeral_eq_Suc)

lemma replicate_7: "replicate 7 x = [x, x, x, x, x, x, x]"
  by (simp add: numeral_eq_Suc)

lemma replicate_5: "replicate 5 x = [x, x, x, x, x]"
  by (simp add: numeral_eq_Suc)

lemma list_update_numeral:
  "(x # xs)[numeral k := y] = x # xs[pred_numeral k := y]"
  by (simp add: numeral_eq_Suc)

lemma fold_update_length:
  "length (fold (\<lambda>i X. X[i := f i]) js X) = length X"
  by (induction js arbitrary: X) auto

lemma fold_update_nth:
  "n \<le> length X \<Longrightarrow> i < n \<Longrightarrow> fold (\<lambda>i X. X[i := f i]) [0..<n] X ! i = f i"
proof (induction n)
  case 0
  then show ?case by simp
next
  case (Suc n)
  show ?case
  proof (cases "i = n")
    case True
    with Suc.prems show ?thesis by (simp add: fold_update_length)
  next
    case False
    with Suc show ?thesis by (simp add: fold_update_length)
  qed
qed

section \<open>Angle normalisation: range and idempotence\<close>

lemma while_above_pi_le: "a \<le> pi \<Longrightarrow> while_above_pi a = a"
  by (simp add: while_above_pi.simps)

lemma while_below_minus_pi_ge: "- pi \<le> a \<Longrightarrow> while_below_minus_pi a = a"
  by (simp add: while_below_minus_pi.simps)

lemma while_above_pi_range:
  "while_above_pi a \<le> pi \<and> (pi < a \<longrightarrow> - pi < while_above_pi a)"
proof (induction a rule: while_above_pi.induct)
  case (1 a)
  show ?case
  proof (cases "pi < a")
    case True
    have unfold: "while_above_pi a = while_above_pi (a - 2 * pi)"
      using True by (simp add: while_above_pi.simps)
    show ?thesis
    proof (cases "pi < a - 2 * pi")
      case True
      with 1 \<open>pi < a\<close> unfold show ?thesis by simp
    next
      case False
      then have "while_above_pi (a - 2 * pi) = a - 2 * pi"
        by (simp add: while_above_pi_le)
      with unfold True False show ?thesis by simp
    qed
  next
    case False
    then show ?thesis by (simp add: while_above_pi_le)
  qed
qed

lemma while_below_minus_pi_range:
  "- pi \<le> while_below_minus_pi a \<and> (a < - pi \<longrightarrow> while_below_minus_pi a < pi)"
proof (induction a rule: while_below_minus_pi.induct)
  case (1 a)
  show ?case
  proof (cases "a < - pi")
    case True
    have unfold: "while_below_minus_pi a = while_below_minus_pi (a + 2 * pi)"
      using True by (simp add: while_below_minus_pi.simps)
    show ?thesis
    proof (cases "a + 2 * pi < - pi")
      case True
      with 1 \<open>a < - pi\<close> unfold show ?thesis by simp
    next
      case False
      then have "while_below_minus_pi (a + 2 * pi) = a + 2 * pi"
        by (simp add: while_below_minus_pi_ge)
      with unfold True False show ?thesis by simp
    qed
  next
    case False
    then show ?thesis by (simp add: while_below_minus_pi_ge)
  qed
qed

lemma angle_normalization_id:
  "- pi \<le> a \<Longrightarrow> a \<le> pi \<Longrightarrow> angle_normalization a = a"
  by (simp add: angle_normalization_def while_above_pi_le while_below_minus_pi_ge)

text \<open>
  C8, as the code has it. For every real \<open>a\<close> the two loops return a value in the
  closed interval \<open>[-\<pi>, \<pi>]\<close>, and normalising a normalised value changes nothing.
  The lower end is closed: the second loop runs while the value is below \<open>-\<pi>\<close>, so
  \<open>-\<pi>\<close> itself is left alone.
\<close>

theorem angle_normalization_closed_interval_idempotent:
  "- pi \<le> angle_normalization a \<and> angle_normalization a \<le> pi
   \<and> angle_normalization (angle_normalization a) = angle_normalization a"
proof -
  have lo: "- pi \<le> angle_normalization a"
    by (simp add: angle_normalization_def while_below_minus_pi_range)
  have hi: "angle_normalization a \<le> pi"
  proof (cases "while_above_pi a < - pi")
    case True
    then have "while_below_minus_pi (while_above_pi a) < pi"
      using while_below_minus_pi_range by blast
    then show ?thesis by (simp add: angle_normalization_def)
  next
    case False
    then have "while_below_minus_pi (while_above_pi a) = while_above_pi a"
      by (simp add: while_below_minus_pi_ge)
    then show ?thesis
      using while_above_pi_range [of a] by (simp add: angle_normalization_def)
  qed
  from lo hi show ?thesis
    by (simp add: angle_normalization_id)
qed

text \<open>
  C8 as the specification states it, with the half-open interval \<open>(-\<pi>, \<pi>]\<close>, fails
  at the input \<open>-\<pi>\<close>: the result is \<open>-\<pi>\<close>, which is not above \<open>-\<pi>\<close>.
\<close>

theorem angle_normalization_minus_pi_counterexample:
  "angle_normalization (- pi) = - pi \<and> \<not> (- pi < angle_normalization (- pi))"
  by (simp add: angle_normalization_id)

section \<open>Folds that write columns\<close>

lemma replicate_2: "replicate 2 x = [x, x]"
  by (simp add: numeral_2_eq_2)

lemma sigma_fold_length:
  "length (fold (\<lambda>i X. (X[f i := a i])[g i := b i]) js X) = length X"
  by (induction js arbitrary: X) auto

lemma sigma_fold_nth:
  assumes f: "\<And>i. f i = Suc i" and g: "\<And>i. g i = Suc (i + n)"
    and "m \<le> n" and "2 * n + 1 \<le> length X" and "k < length X"
  shows "fold (\<lambda>i X. (X[f i := a i])[g i := b i]) [0..<m] X ! k =
     (if 1 \<le> k \<and> k \<le> m then a (k - 1)
      else if n + 1 \<le> k \<and> k \<le> n + m then b (k - n - 1)
      else X ! k)"
  using assms(3)
proof (induction m)
  case 0
  then show ?case by auto
next
  case (Suc m)
  then have IH: "fold (\<lambda>i X. (X[f i := a i])[g i := b i]) [0..<m] X ! k =
     (if 1 \<le> k \<and> k \<le> m then a (k - 1)
      else if n + 1 \<le> k \<and> k \<le> n + m then b (k - n - 1)
      else X ! k)"
    by simp
  have len: "length (fold (\<lambda>i X. (X[f i := a i])[g i := b i]) [0..<m] X) = length X"
    by (rule sigma_fold_length)
  show ?case
    using Suc.prems assms(4,5) IH len
    by (auto simp add: nth_list_update f g)
qed

section \<open>Matrix entries\<close>










lemma set_head_5_7:
  assumes "length x = 5" and "length xa = 7"
  shows "((set_head xa 5 x)[5 := 0])[6 := 0] = x @ [0, 0]"
proof -
  have two: "\<exists>a b. ys = [a, b]" if "length ys = 2" for ys :: vec
    using that by (auto simp: length_Suc_conv numeral_2_eq_2)
  have "length (drop 5 xa) = 2"
    using assms(2) by simp
  from two [OF this] obtain a b where ab: "drop 5 xa = [a, b]"
    by blast
  show ?thesis
    using assms(1) by (simp add: set_head_def ab list_update_append)
qed

section \<open>The quotient of adjugate and determinant is the inverse\<close>

text \<open>
  For both sizes at which the source calls \<^verbatim>\<open>S.inverse()\<close>, and for every matrix with a
  determinant other than zero, \<open>inverse_mat\<close> is a right inverse.
\<close>

lemma inverse_mat_2:
  assumes "determinant [[a, b], [c, d]] \<noteq> 0"
  shows "mmul [[a, b], [c, d]] (inverse_mat [[a, b], [c, d]]) = [[1, 0], [0, 1]]"
proof -
  define D where "D = a * d - b * c"
  have det: "D \<noteq> 0"
    using assms by (simp add: determinant_def D_def)
  have inv: "inverse_mat [[a, b], [c, d]] = [[d / D, - b / D], [- c / D, a / D]]"
    by (simp add: inverse_mat_def determinant_def adjugate_def D_def)
  have row: "(x * p + y * q) / D = x * (p / D) + y * (q / D)" for x y p q :: real
    by (simp add: add_divide_distrib)
  have one: "u = D \<Longrightarrow> u / D = 1" and zero: "u = 0 \<Longrightarrow> u / D = 0" for u
    using det by simp_all
  have e11: "a * (d / D) + b * (- c / D) = 1"
    unfolding row [symmetric] by (rule one) (simp add: D_def algebra_simps)
  have e12: "a * (- b / D) + b * (a / D) = 0"
    unfolding row [symmetric] by (rule zero) (simp add: algebra_simps)
  have e21: "c * (d / D) + d * (- c / D) = 0"
    unfolding row [symmetric] by (rule zero) (simp add: algebra_simps)
  have e22: "c * (- b / D) + d * (a / D) = 1"
    unfolding row [symmetric] by (rule one) (simp add: D_def algebra_simps)
  show ?thesis
    unfolding inv
    using e11 e12 e21 e22
    by (simp add: mmul_def vec_mat_def mcol_def ncols_def dot_def upt_rec)
qed

lemma inverse_mat_3:
  assumes "determinant [[a, b, c], [d, e, f], [g, h, k]] \<noteq> 0"
  shows "mmul [[a, b, c], [d, e, f], [g, h, k]] (inverse_mat [[a, b, c], [d, e, f], [g, h, k]])
     = [[1, 0, 0], [0, 1, 0], [0, 0, 1]]"
proof -
  define D where "D = a * (e * k - f * h) - b * (d * k - f * g) + c * (d * h - e * g)"
  have det: "D \<noteq> 0"
    using assms by (simp add: determinant_def D_def)
  have inv: "inverse_mat [[a, b, c], [d, e, f], [g, h, k]] =
      [[(e * k - f * h) / D, (c * h - b * k) / D, (b * f - c * e) / D],
       [(f * g - d * k) / D, (a * k - c * g) / D, (c * d - a * f) / D],
       [(d * h - e * g) / D, (b * g - a * h) / D, (a * e - b * d) / D]]"
    by (simp add: inverse_mat_def determinant_def adjugate_def D_def)
  have row: "(x * p + y * q + z * r) / D = x * (p / D) + y * (q / D) + z * (r / D)"
    for x y z p q r :: real
    by (simp add: add_divide_distrib)
  have one: "u = D \<Longrightarrow> u / D = 1" and zero: "u = 0 \<Longrightarrow> u / D = 0" for u
    using det by simp_all
  have e11: "a * ((e * k - f * h) / D) + b * ((f * g - d * k) / D) + c * ((d * h - e * g) / D) = 1"
    unfolding row [symmetric] by (rule one) (simp add: D_def algebra_simps)
  have e12: "a * ((c * h - b * k) / D) + b * ((a * k - c * g) / D) + c * ((b * g - a * h) / D) = 0"
    unfolding row [symmetric] by (rule zero) (simp add: algebra_simps)
  have e13: "a * ((b * f - c * e) / D) + b * ((c * d - a * f) / D) + c * ((a * e - b * d) / D) = 0"
    unfolding row [symmetric] by (rule zero) (simp add: algebra_simps)
  have e21: "d * ((e * k - f * h) / D) + e * ((f * g - d * k) / D) + f * ((d * h - e * g) / D) = 0"
    unfolding row [symmetric] by (rule zero) (simp add: algebra_simps)
  have e22: "d * ((c * h - b * k) / D) + e * ((a * k - c * g) / D) + f * ((b * g - a * h) / D) = 1"
    unfolding row [symmetric] by (rule one) (simp add: D_def algebra_simps)
  have e23: "d * ((b * f - c * e) / D) + e * ((c * d - a * f) / D) + f * ((a * e - b * d) / D) = 0"
    unfolding row [symmetric] by (rule zero) (simp add: algebra_simps)
  have e31: "g * ((e * k - f * h) / D) + h * ((f * g - d * k) / D) + k * ((d * h - e * g) / D) = 0"
    unfolding row [symmetric] by (rule zero) (simp add: algebra_simps)
  have e32: "g * ((c * h - b * k) / D) + h * ((a * k - c * g) / D) + k * ((b * g - a * h) / D) = 0"
    unfolding row [symmetric] by (rule zero) (simp add: algebra_simps)
  have e33: "g * ((b * f - c * e) / D) + h * ((c * d - a * f) / D) + k * ((a * e - b * d) / D) = 1"
    unfolding row [symmetric] by (rule one) (simp add: D_def algebra_simps)
  show ?thesis
    unfolding inv
    using e11 e12 e13 e21 e22 e23 e31 e32 e33
    by (simp add: mmul_def vec_mat_def mcol_def ncols_def dot_def upt_rec add.assoc)
qed

section \<open>The factor that llt returns is lower triangular\<close>



section \<open>The functions in phases\<close>

lemma Prediction_phases:
  "Prediction this dt =
     Prediction_recombine (predictSigmaPoints (generateSigmaPoints (Prediction_augment this)) dt)"
  by (simp add: Prediction_def Prediction_augment_def Prediction_recombine_def
      predicted_mean_def predicted_covariance_def Let_def sigma_range_def
      generateSigmaPoints_def predictSigmaPoints_def)

lemma predictMeasurment_phases:
  "predictMeasurment this R =
     (let s = this\<lparr>z_pred_' := predictMeasurment_z_pred this\<rparr>
      in s\<lparr>S_' := predictMeasurment_S s R\<rparr>)"
  by (simp add: predictMeasurment_def predictMeasurment_z_pred_def predictMeasurment_S_def
      Let_def sigma_range_def)

lemma UpdateLidar_phases:
  "UpdateLidar this m =
     UpdateMeasurment (predictMeasurment (UpdateLidar_project this) (R_lidar_' this)) m"
  by (simp add: UpdateLidar_def UpdateLidar_project_def Let_def)

lemma UpdateRadar_phases:
  "UpdateRadar this m =
     UpdateMeasurment (predictMeasurment (UpdateRadar_project this) (R_radar_' this)) m"
  by (simp add: UpdateRadar_def UpdateRadar_project_def Let_def sigma_range_def)

lemma ProcessMeasurement_initialized:
  "is_initialized_' this \<Longrightarrow>
   ProcessMeasurement this m = UpdateMeasurment (measurement_predicted this m) m"
  by (simp add: ProcessMeasurement_def measurement_predicted_def Let_def
      UpdateLidar_phases UpdateRadar_phases)


lemma generateSigmaPoints_nth:
  assumes "n_aug_' this = 7" and "length (Xsig_aug_' this) = 15" and "k < 15"
  shows "Xsig_aug_' (generateSigmaPoints this) ! k =
     (if k = 0 then x_aug_' this
      else if k \<le> 7 then
        vadd (x_aug_' this)
          (smult (sqrt (lambda_' this + 7)) (mcol (llt_matrixL (P_aug_' this)) (k - 1)))
      else
        vsub (x_aug_' this)
          (smult (sqrt (lambda_' this + 7)) (mcol (llt_matrixL (P_aug_' this)) (k - 8))))"
proof -
  let ?a = "\<lambda>i. vadd (x_aug_' this)
      (smult (sqrt (lambda_' this + 7)) (mcol (llt_matrixL (P_aug_' this)) i))"
  let ?b = "\<lambda>i. vsub (x_aug_' this)
      (smult (sqrt (lambda_' this + 7)) (mcol (llt_matrixL (P_aug_' this)) i))"
  let ?X = "(Xsig_aug_' this)[0 := x_aug_' this]"
  have "Xsig_aug_' (generateSigmaPoints this) =
      fold (\<lambda>i X. (X[i + 1 := ?a i])[i + 1 + 7 := ?b i]) [0..<7] ?X"
    using assms(1) by (simp add: generateSigmaPoints_def Let_def)
  moreover have "fold (\<lambda>i X. (X[i + 1 := ?a i])[i + 1 + 7 := ?b i]) [0..<7] ?X ! k =
     (if 1 \<le> k \<and> k \<le> 7 then ?a (k - 1)
      else if 7 + 1 \<le> k \<and> k \<le> 7 + 7 then ?b (k - 7 - 1)
      else ?X ! k)"
    using assms(2,3) by (intro sigma_fold_nth) simp_all
  ultimately show ?thesis
    using assms(2,3) by auto
qed



section \<open>The run of the filter, state by state\<close>

lemma constructed_value:
  "UKF_constructor UKF_fresh =
     \<lparr>is_initialized_' = False, use_laser_' = True, use_radar_' = True,
      n_x_' = 5, n_aug_' = 7, x_' = [0, 0, pi / 4, 3 / 10, 9 / 50],
      P_' = [[3 / 10, 0, 0, 0, 0],
             [0, 1 / 5, 0, 0, 0],
             [0, 0, 3 / 10, 0, 0],
             [0, 0, 0, 1, 0],
             [0, 0, 0, 0, 1]],
      std_a_' = 6, std_yawdd_' = pi / 6, std_laspx_' = 3 / 20, std_laspy_' = 3 / 20,
      std_radr_' = 3 / 10, std_radphi_' = 3 / 100, std_radrd_' = 3 / 10, lambda_' = - 2,
      x_aug_' = [0, 0, 0, 0, 0, 0, 0],
      P_aug_' = replicate 7 [0, 0, 0, 0, 0, 0, 0], n_sigma_pts_' = 15,
      Xsig_pred_' = replicate 15 [0, 0, 0, 0, 0],
      Xsig_aug_' = replicate 15 [0, 0, 0, 0, 0, 0, 0],
      weights_' = [- 2 / 5, 1 / 10, 1 / 10, 1 / 10, 1 / 10, 1 / 10, 1 / 10, 1 / 10,
                   1 / 10, 1 / 10, 1 / 10, 1 / 10, 1 / 10, 1 / 10, 1 / 10],
      R_radar_' = [[9 / 100, 0, 0], [0, 9 / 10000, 0], [0, 0, 9 / 100]],
      R_lidar_' = [[9 / 400, 0], [0, 9 / 400]], previous_timestamp_' = 0,
      n_z = 0, Zsig_' = [], z_pred_' = [], S_' = [],
      NIS_lidar = 0, NIS_radar = 0\<rparr>"
  by (simp add: UKF_constructor_def UKF_fresh_def Let_def new_vec_def new_mat_def
      upt_1_15 replicate_15 replicate_7 replicate_5 list_update_numeral)

lemma laser_started_value:
  "laser_started =
     (UKF_constructor UKF_fresh)
       \<lparr>x_' := [1, 1, 0, 0, 0], previous_timestamp_' := 0, is_initialized_' := True\<rparr>"
  by (simp add: laser_started_def ProcessMeasurement_def first_laser_def Let_def constructed_value)

lemma laser_augmented_value:
  "laser_augmented =
     laser_stamped\<lparr>x_aug_' := [1, 1, 0, 0, 0, 0, 0], P_aug_' := P_aug_example\<rparr>"
  by (simp add: laser_augmented_def Prediction_augment_def laser_stamped_def
      laser_started_value constructed_value P_aug_example_def
      set_head_def mat_set_def set_topLeftCorner_def mfill0_def fill0_def
      replicate_7 upt_0_7 list_update_numeral)

lemma sqrt_pi_sq_36: "sqrt (pi * pi / 36) = pi / 6"
proof -
  have "pi * pi / 36 = (pi / 6)\<^sup>2"
    by (simp add: power2_eq_square)
  then show ?thesis
    by (simp only: real_sqrt_abs) simp
qed

lemma pi_sq_not_le_0: "\<not> pi * pi \<le> 0"
proof -
  have "0 < pi * pi"
    by (rule mult_pos_pos) simp_all
  then show ?thesis
    by (simp only: not_le)
qed

lemma llt_example: "llt_matrixL P_aug_example = L_example"
  by (simp add: llt_matrixL_def P_aug_example_def L_example_def Let_def eval_nat_numeral
      llt_pivot_def llt_column_def lower_column_def upt_rec sqrt_pi_sq_36 pi_sq_not_le_0)

lemma sqrt5_sqrt_3_10: "sqrt 5 * sqrt (3 / 10) = sqrt (3 / 2)"
  by (simp add: real_sqrt_mult [symmetric])

lemma sqrt5_sqrt_1_5: "sqrt 5 * sqrt (1 / 5) = 1"
  by (simp add: real_sqrt_mult [symmetric])

lemma laser_sigma_value:
  "laser_sigma = laser_augmented\<lparr>Xsig_aug_' := Xsig_aug_example\<rparr>"
  by (simp add: laser_sigma_def generateSigmaPoints_def Let_def laser_augmented_value llt_example
      L_example_def laser_stamped_def laser_started_value constructed_value Xsig_aug_example_def
      replicate_15 upt_0_7 list_update_numeral vadd_def vsub_def smult_def mcol_def
      sqrt5_sqrt_3_10 sqrt5_sqrt_1_5)

lemma sqrt5_gt_1: "1 < sqrt 5"
  using real_sqrt_less_mono [of 1 5] by simp

lemma sqrt5_times_1000: "1 < sqrt 5 * 1000"
  using sqrt5_gt_1 by linarith

lemmas laser_run_to_sigma =
  laser_sigma_value laser_augmented_value laser_stamped_def laser_started_value
  constructed_value

lemma laser_propagated_value:
  "laser_propagated = laser_sigma\<lparr>Xsig_pred_' := Xsig_pred_example\<rparr>"
  by (simp add: laser_propagated_def predictSigmaPoints_def sigma_range_def laser_run_to_sigma
      Xsig_aug_example_def Xsig_pred_example_def
      predictSigmaPoint_def Let_def replicate_15 upt_0_15 list_update_numeral
      sqrt5_times_1000)

lemma pi_ge_3: "3 \<le> pi"
proof -
  have "sin (pi / 6) \<le> pi / 6"
    by (rule sin_x_le_x) simp
  then show ?thesis
    by (simp add: sin_30)
qed

lemma sqrt5_le_3: "sqrt 5 \<le> 3"
  using real_sqrt_le_mono [of 5 9] by simp

lemma angle_normalization_examples:
  "angle_normalization 0 = 0"
  "angle_normalization (sqrt 5) = sqrt 5"
  "angle_normalization (- sqrt 5) = - sqrt 5"
  "angle_normalization (sqrt 5 * pi / 12) = sqrt 5 * pi / 12"
  "angle_normalization (- (sqrt 5 * pi / 12)) = - (sqrt 5 * pi / 12)"
  "angle_normalization 1 = 1"
  "angle_normalization (- 1) = - 1"
proof -
  have a: "0 \<le> sqrt 5" "sqrt 5 \<le> pi"
    using sqrt5_le_3 pi_ge_3 by simp_all
  have b: "0 \<le> sqrt 5 * pi / 12" "sqrt 5 * pi / 12 \<le> pi"
    using sqrt5_le_3 pi_gt_zero by (simp_all add: mult_right_mono)
  show "angle_normalization 0 = 0"
    by (rule angle_normalization_id) simp_all
  show "angle_normalization 1 = 1"
    using pi_ge_3 by (intro angle_normalization_id) linarith+
  show "angle_normalization (- 1) = - 1"
    using pi_ge_3 by (intro angle_normalization_id) linarith+
  show "angle_normalization (sqrt 5) = sqrt 5"
    using a pi_gt_zero by (intro angle_normalization_id) linarith+
  show "angle_normalization (- sqrt 5) = - sqrt 5"
    using a pi_gt_zero by (intro angle_normalization_id) linarith+
  show "angle_normalization (sqrt 5 * pi / 12) = sqrt 5 * pi / 12"
    using b pi_gt_zero by (intro angle_normalization_id) linarith+
  show "angle_normalization (- (sqrt 5 * pi / 12)) = - (sqrt 5 * pi / 12)"
    using b pi_gt_zero by (intro angle_normalization_id) linarith+
qed

lemma laser_predicted_mean:
  "predicted_mean laser_propagated = [1, 1, 0, 0, 0]"
  by (simp add: predicted_mean_def sigma_range_def laser_propagated_value laser_run_to_sigma
      Xsig_pred_example_def upt_0_15 vadd_def smult_def fill0_def)
    (simp add: field_simps)

lemma laser_predicted_covariance:
  "predicted_covariance (laser_propagated\<lparr>x_' := [1, 1, 0, 0, 0]\<rparr>) = P_pred_example"
  by (simp add: predicted_covariance_def sigma_range_def laser_propagated_value
      laser_run_to_sigma Xsig_pred_example_def
      upt_0_15 vadd_def vsub_def smult_def mfill0_def fill0_def madd_def outer_def Let_def
      list_update_numeral angle_normalization_examples P_pred_example_def)

lemma laser_predicted_value:
  "laser_predicted = laser_propagated\<lparr>x_' := [1, 1, 0, 0, 0], P_' := P_pred_example\<rparr>"
  by (simp add: laser_predicted_def Prediction_recombine_def Let_def laser_predicted_mean
      laser_predicted_covariance)

lemmas laser_run_to_predicted =
  laser_predicted_value laser_propagated_value laser_run_to_sigma

lemma laser_projected_value:
  "laser_projected =
     laser_predicted\<lparr>n_z := 2, Zsig_' := Zsig_example, z_pred_' := [0, 0],
       S_' := [[0, 0], [0, 0]]\<rparr>"
  by (simp add: laser_projected_def UpdateLidar_project_def laser_run_to_predicted
      Zsig_example_def Xsig_pred_example_def new_vec_def new_mat_def replicate_2)

lemma laser_z_pred:
  "predictMeasurment_z_pred laser_projected = [1, 1]"
  by (simp add: predictMeasurment_z_pred_def sigma_range_def laser_projected_value
      laser_run_to_predicted
      Zsig_example_def Xsig_pred_example_def upt_0_15 vadd_def smult_def fill0_def)
    (simp add: field_simps)

lemma laser_S:
  "predictMeasurment_S (laser_projected\<lparr>z_pred_' := [1, 1]\<rparr>) [[9 / 400, 0], [0, 9 / 400]] =
     S_example"
  by (simp add: predictMeasurment_S_def sigma_range_def laser_projected_value
      laser_run_to_predicted S_example_def
      Zsig_example_def Xsig_pred_example_def upt_0_15 vadd_def vsub_def smult_def
      mfill0_def fill0_def madd_def outer_def Let_def
      list_update_numeral angle_normalization_examples)

lemma laser_measured_value:
  "laser_measured = laser_projected\<lparr>z_pred_' := [1, 1], S_' := S_example\<rparr>"
proof -
  have R: "R_lidar_' laser_predicted = [[9 / 400, 0], [0, 9 / 400]]"
    by (simp add: laser_run_to_predicted)
  show ?thesis
    by (simp add: laser_measured_def predictMeasurment_phases Let_def R laser_z_pred laser_S)
qed

lemmas laser_run_to_measured =
  laser_measured_value laser_projected_value laser_run_to_predicted

lemma laser_Tc:
  "UpdateMeasurment_Tc laser_measured =
     [[48 / 5, 0], [0, 1 / 5], [183 / 10, 0], [0, 0], [0, 0]]"
  by (simp add: UpdateMeasurment_Tc_def sigma_range_def laser_run_to_measured
      Zsig_example_def Xsig_pred_example_def upt_0_15 vadd_def vsub_def smult_def
      mfill0_def fill0_def madd_def outer_def Let_def new_mat_def new_vec_def
      replicate_2 replicate_5
      list_update_numeral angle_normalization_examples)

lemma S_example_inverse:
  "inverse_mat S_example = [[400 / 3849, 0], [0, 400 / 89]]"
  by (simp add: inverse_mat_def determinant_def adjugate_def S_example_def)

lemma laser_measured_fields:
  "x_' laser_measured = [1, 1, 0, 0, 0]"
  "P_' laser_measured = P_pred_example"
  "z_pred_' laser_measured = [1, 1]"
  "S_' laser_measured = S_example"
  by (simp_all add: laser_run_to_measured)

lemma laser_K: "UpdateMeasurment_K laser_measured = K_example"
  by (simp add: UpdateMeasurment_K_def laser_Tc laser_measured_fields S_example_inverse
      K_example_def mmul_def vec_mat_def ncols_def mcol_def dot_def upt_rec)

lemma laser_measurement_predicted:
  assumes "timestamp_' m = 1000000" and "sensor_type_' m = LASER"
  shows "measurement_predicted laser_started m = laser_measured"
proof -
  have prev: "previous_timestamp_' laser_started = 0"
    by (simp add: laser_started_value)
  have dt: "ProcessMeasurement_delta_t laser_started m = 1"
    by (simp add: ProcessMeasurement_delta_t_def assms(1) prev)
  have "Prediction (laser_started\<lparr>previous_timestamp_' := timestamp_' m\<rparr>) 1 = laser_predicted"
    by (simp add: Prediction_phases laser_predicted_def laser_propagated_def laser_sigma_def
        laser_augmented_def laser_stamped_def assms(1))
  then show ?thesis
    by (simp add: measurement_predicted_def dt assms(2) Let_def laser_measured_def
        laser_projected_def)
qed

section \<open>When llt succeeds, the factor is a Cholesky factor\<close>








lemma llt_broken_fails: "\<not> llt_info_Success P_aug_broken"
  by (simp add: llt_info_Success_def P_aug_broken_def Let_def eval_nat_numeral llt_pivot_def)

section \<open>The motion model\<close>

text \<open>
  C5. For every augmented sigma point \<open>(px, py, v, yaw, yawd, nu_a, nu_yawdd)\<close> in column
  \<open>i\<close> of \<open>Xsig_aug_\<close> and every \<open>dt\<close>, \<open>predictSigmaPoints\<close> writes into column
  \<open>i\<close> of \<open>Xsig_pred_\<close> the position by the curved-path formulas when
  \<open>\<bar>yawd\<bar> > 0.001\<close> and by the straight-line formulas otherwise, the unchanged
  speed, \<open>yaw + yawd * dt\<close> and the unchanged \<open>yawd\<close>, each with its noise term added:
  \<open>0.5 * dt\<^sup>2 * nu_a * cos yaw\<close> and \<open>0.5 * dt\<^sup>2 * nu_a * sin yaw\<close> to the position,
  \<open>dt * nu_a\<close> to the speed, \<open>0.5 * dt\<^sup>2 * nu_yawdd\<close> to the heading and
  \<open>dt * nu_yawdd\<close> to the heading rate.
\<close>

theorem predictSigmaPoints_motion_model:
  assumes "n_aug_' this = 7" and "length (Xsig_pred_' this) = 15" and "i < 15"
    and "Xsig_aug_' this ! i = [px, py, v, yaw, yawd, nu_a, nu_yawdd]"
  shows "Xsig_pred_' (predictSigmaPoints this dt) ! i =
     [(if \<bar>yawd\<bar> > 0.001 then px + (v / yawd) * (sin (yaw + yawd * dt) - sin yaw)
       else px + v * dt * cos yaw) + 0.5 * dt\<^sup>2 * nu_a * cos yaw,
      (if \<bar>yawd\<bar> > 0.001 then py + (v / yawd) * (cos yaw - cos (yaw + yawd * dt))
       else py + v * dt * sin yaw) + 0.5 * dt\<^sup>2 * nu_a * sin yaw,
      v + dt * nu_a,
      yaw + yawd * dt + 0.5 * dt\<^sup>2 * nu_yawdd,
      yawd + dt * nu_yawdd]"
proof -
  have range: "sigma_range this = [0..<15]"
    using assms(1) by (simp add: sigma_range_def)
  have "Xsig_pred_' (predictSigmaPoints this dt) ! i = predictSigmaPoint dt (Xsig_aug_' this ! i)"
    using assms(2,3) by (simp add: predictSigmaPoints_def range fold_update_nth)
  also have "\<dots> = predictSigmaPoint dt [px, py, v, yaw, yawd, nu_a, nu_yawdd]"
    by (simp add: assms(4))
  finally show ?thesis
    by (simp add: predictSigmaPoint_def Let_def power2_eq_square)
qed

text \<open>
  The theorem at the run of the filter, one second ahead: a point with a speed and no
  heading rate (straight line), a point with a heading rate (curved path, here at speed
  0), and a point with acceleration noise.
\<close>

theorem predictSigmaPoints_motion_model_witness:
  "n_aug_' laser_sigma = 7 \<and> length (Xsig_pred_' laser_sigma) = 15
   \<and> Xsig_aug_' laser_sigma ! 3 = [1, 1, sqrt (3 / 2), 0, 0, 0, 0]
   \<and> Xsig_pred_' (predictSigmaPoints laser_sigma 1) ! 3 = [1 + sqrt (3 / 2), 1, sqrt (3 / 2), 0, 0]
   \<and> Xsig_aug_' laser_sigma ! 5 = [1, 1, 0, 0, sqrt 5, 0, 0]
   \<and> Xsig_pred_' (predictSigmaPoints laser_sigma 1) ! 5 = [1, 1, 0, sqrt 5, sqrt 5]
   \<and> Xsig_aug_' laser_sigma ! 13 = [1, 1, 0, 0, 0, - (sqrt 5 * 6), 0]
   \<and> Xsig_pred_' (predictSigmaPoints laser_sigma 1) ! 13 = [1 - 3 * sqrt 5, 1, - (6 * sqrt 5), 0, 0]"
proof -
  have n: "n_aug_' laser_sigma = 7" and len: "length (Xsig_pred_' laser_sigma) = 15"
    by (simp_all add: laser_run_to_sigma)
  have c3: "Xsig_aug_' laser_sigma ! 3 = [1, 1, sqrt (3 / 2), 0, 0, 0, 0]"
    and c5: "Xsig_aug_' laser_sigma ! 5 = [1, 1, 0, 0, sqrt 5, 0, 0]"
    and c13: "Xsig_aug_' laser_sigma ! 13 = [1, 1, 0, 0, 0, - (sqrt 5 * 6), 0]"
    by (simp_all add: laser_sigma_value Xsig_aug_example_def)
  have "Xsig_pred_' (predictSigmaPoints laser_sigma 1) ! 3 = [1 + sqrt (3 / 2), 1, sqrt (3 / 2), 0, 0]"
    using predictSigmaPoints_motion_model [OF n len _ c3, of 1] by simp
  moreover have "Xsig_pred_' (predictSigmaPoints laser_sigma 1) ! 5 = [1, 1, 0, sqrt 5, sqrt 5]"
    using predictSigmaPoints_motion_model [OF n len _ c5, of 1] sqrt5_times_1000 by simp
  moreover have "Xsig_pred_' (predictSigmaPoints laser_sigma 1) ! 13 =
      [1 - 3 * sqrt 5, 1, - (6 * sqrt 5), 0, 0]"
    using predictSigmaPoints_motion_model [OF n len _ c13, of 1] by simp
  ultimately show ?thesis
    using n len c3 c5 c13 by simp
qed

section \<open>The sigma points\<close>




text \<open>
  The same step from a belief covariance that is not positive definite (the variance of
  \<open>x\<close> is \<open>- 1\<close>), on a filter of the constructor's dimensions.
\<close>

lemma broken_augmented_value:
  "broken_augmented =
     broken_stamped\<lparr>x_aug_' := [1, 1, 0, 0, 0, 0, 0], P_aug_' := P_aug_broken\<rparr>"
  by (simp add: broken_augmented_def Prediction_augment_def broken_stamped_def
      broken_started_def laser_started_value constructed_value P_aug_broken_def
      set_head_def mat_set_def set_topLeftCorner_def mfill0_def fill0_def
      replicate_7 upt_0_7 list_update_numeral)

lemma llt_broken: "llt_matrixL P_aug_broken = L_broken"
  by (simp add: llt_matrixL_def P_aug_broken_def L_broken_def Let_def eval_nat_numeral
      llt_pivot_def llt_column_def lower_column_def upt_rec)

lemmas broken_run_to_augmented =
  broken_augmented_value broken_stamped_def broken_started_def laser_started_value
  constructed_value

lemma broken_sigma_value:
  "broken_sigma = broken_augmented\<lparr>Xsig_aug_' := Xsig_aug_broken\<rparr>"
  by (simp add: broken_sigma_def generateSigmaPoints_def Let_def broken_run_to_augmented
      llt_broken L_broken_def Xsig_aug_broken_def
      replicate_15 upt_0_7 list_update_numeral vadd_def vsub_def smult_def mcol_def)

lemmas broken_run_to_sigma = broken_sigma_value broken_run_to_augmented


section \<open>The weights\<close>


lemma sigma_range_kept:
  "sigma_range (Prediction_augment this) = sigma_range this"
  "sigma_range (generateSigmaPoints this) = sigma_range this"
  "sigma_range (predictSigmaPoints this dt) = sigma_range this"
  by (simp_all add: sigma_range_def Prediction_augment_def generateSigmaPoints_def
      predictSigmaPoints_def Let_def)


section \<open>The first measurement\<close>

text \<open>
  C4. On a filter that is not yet initialised, \<open>ProcessMeasurement\<close> sets the mean from
  the measurement alone, stores the time stamp, marks the filter initialised and changes
  nothing else (in particular not the covariance). From a radar measurement
  \<open>(r, phi, rd)\<close> the mean is
  \<open>(r cos phi, r sin phi, sqrt ((rd cos phi)\<^sup>2 + (rd sin phi)\<^sup>2), 0, 0)\<close>; from a laser
  measurement \<open>(x, y)\<close> it is \<open>(x, y, 0, 0, 0)\<close>, with a position component of
  magnitude below 0.001 replaced by 0.001.
\<close>

theorem first_measurement_initializes:
  assumes "\<not> is_initialized_' this"
  shows
    "(sensor_type_' m = RADAR \<and> raw_measurements_' m = [r, phi, rd] \<longrightarrow>
        x_' (ProcessMeasurement this m) =
          [r * cos phi, r * sin phi, sqrt ((rd * cos phi)\<^sup>2 + (rd * sin phi)\<^sup>2), 0, 0])
     \<and> (sensor_type_' m = LASER \<and> raw_measurements_' m = [x, y] \<longrightarrow>
        x_' (ProcessMeasurement this m) =
          [if \<bar>x\<bar> < 0.001 then 0.001 else x, if \<bar>y\<bar> < 0.001 then 0.001 else y, 0, 0, 0])
     \<and> ProcessMeasurement this m =
          this\<lparr>x_' := x_' (ProcessMeasurement this m),
               previous_timestamp_' := timestamp_' m,
               is_initialized_' := True\<rparr>"
  using assms
  by (cases "sensor_type_' m")
     (simp_all add: ProcessMeasurement_def Let_def power2_eq_square)

text \<open>
  The two scenarios of the specification, on the constructed filter: the radar
  measurement \<open>(5, 0, 0)\<close> gives the mean \<open>(5, 0, 0, 0, 0)\<close>, the laser measurement
  \<open>(0, 0)\<close> the mean \<open>(0.001, 0.001, 0, 0, 0)\<close>; the covariance stays the
  constructor's.
\<close>

theorem first_measurement_initializes_witness:
  "\<not> is_initialized_' (UKF_constructor UKF_fresh)
   \<and> x_' (ProcessMeasurement (UKF_constructor UKF_fresh)
            \<lparr>timestamp_' = 7, sensor_type_' = RADAR, raw_measurements_' = [5, 0, 0]\<rparr>)
       = [5, 0, 0, 0, 0]
   \<and> x_' (ProcessMeasurement (UKF_constructor UKF_fresh)
            \<lparr>timestamp_' = 7, sensor_type_' = LASER, raw_measurements_' = [0, 0]\<rparr>)
       = [0.001, 0.001, 0, 0, 0]
   \<and> P_' (ProcessMeasurement (UKF_constructor UKF_fresh)
            \<lparr>timestamp_' = 7, sensor_type_' = LASER, raw_measurements_' = [0, 0]\<rparr>)
       = P_' (UKF_constructor UKF_fresh)
   \<and> previous_timestamp_' (ProcessMeasurement (UKF_constructor UKF_fresh)
            \<lparr>timestamp_' = 7, sensor_type_' = LASER, raw_measurements_' = [0, 0]\<rparr>) = 7
   \<and> is_initialized_' (ProcessMeasurement (UKF_constructor UKF_fresh)
            \<lparr>timestamp_' = 7, sensor_type_' = LASER, raw_measurements_' = [0, 0]\<rparr>)"
proof -
  let ?c = "UKF_constructor UKF_fresh"
  let ?radar = "\<lparr>timestamp_' = 7, sensor_type_' = RADAR, raw_measurements_' = [5, 0, 0]\<rparr>"
  let ?laser = "\<lparr>timestamp_' = 7, sensor_type_' = LASER, raw_measurements_' = [0, 0]\<rparr>"
  have fresh: "\<not> is_initialized_' ?c"
    by (simp add: constructed_value)
  have radar: "x_' (ProcessMeasurement ?c ?radar) = [5, 0, 0, 0, 0]"
    using first_measurement_initializes [OF fresh, of ?radar 5 0 0] by simp
  have laser: "x_' (ProcessMeasurement ?c ?laser) = [0.001, 0.001, 0, 0, 0]"
    using first_measurement_initializes [OF fresh, of ?laser _ _ _ 0 0] by simp
  have frame: "ProcessMeasurement ?c ?laser =
      ?c\<lparr>x_' := x_' (ProcessMeasurement ?c ?laser),
          previous_timestamp_' := timestamp_' ?laser, is_initialized_' := True\<rparr>"
    using first_measurement_initializes [OF fresh, of ?laser] by blast
  have "P_' (ProcessMeasurement ?c ?laser) = P_' ?c"
    "previous_timestamp_' (ProcessMeasurement ?c ?laser) = 7"
    "is_initialized_' (ProcessMeasurement ?c ?laser)"
    by (subst frame, simp)+
  with fresh radar laser show ?thesis
    by simp
qed

section \<open>Time stamps out of order\<close>

lemma Xsig_pred_kept:
  "Xsig_pred_' (predictMeasurment this R) = Xsig_pred_' this"
  "Xsig_pred_' (UpdateMeasurment this m) = Xsig_pred_' this"
  "Xsig_pred_' (UpdateLidar_project this) = Xsig_pred_' this"
  "Xsig_pred_' (UpdateRadar_project this) = Xsig_pred_' this"
  "Xsig_pred_' (Prediction_recombine this) = Xsig_pred_' this"
  by (simp_all add: predictMeasurment_def UpdateMeasurment_def UpdateLidar_project_def
      UpdateRadar_project_def Prediction_recombine_def Let_def)

lemma ProcessMeasurement_Xsig_pred:
  assumes "is_initialized_' this"
  shows "Xsig_pred_' (ProcessMeasurement this m) =
     Xsig_pred_'
       (predictSigmaPoints
          (generateSigmaPoints
             (Prediction_augment (this\<lparr>previous_timestamp_' := timestamp_' m\<rparr>)))
          (ProcessMeasurement_delta_t this m))"
  using assms
  by (simp add: ProcessMeasurement_initialized measurement_predicted_def Let_def
      Xsig_pred_kept Prediction_phases)

lemma radar_started_value:
  "radar_started =
     (UKF_constructor UKF_fresh)
       \<lparr>x_' := [1, 0, 1, 0, 0], previous_timestamp_' := 1000000, is_initialized_' := True\<rparr>"
  by (simp add: radar_started_def ProcessMeasurement_def first_radar_def Let_def constructed_value)

lemma first_propagated_point:
  assumes "n_aug_' this = 7" and "length (Xsig_aug_' this) = 15"
    and "length (Xsig_pred_' this) = 15"
    and "length (x_' this) = 5" and "length (x_aug_' this) = 7"
  shows "Xsig_pred_' (predictSigmaPoints (generateSigmaPoints (Prediction_augment this)) dt) ! 0 =
     predictSigmaPoint dt (x_' this @ [0, 0])"
proof -
  let ?a = "Prediction_augment this"
  have a: "n_aug_' ?a = 7" "length (Xsig_aug_' ?a) = 15" "length (Xsig_pred_' ?a) = 15"
    using assms(1,2,3) by (simp_all add: Prediction_augment_def)
  have xa: "x_aug_' ?a = x_' this @ [0, 0]"
    using assms(4,5) by (simp add: Prediction_augment_def set_head_5_7)
  let ?g = "generateSigmaPoints ?a"
  have g0: "Xsig_aug_' ?g ! 0 = x_' this @ [0, 0]"
    using generateSigmaPoints_nth [OF a(1,2), of 0] xa by simp
  have g: "sigma_range ?g = [0..<15]" "length (Xsig_pred_' ?g) = 15"
    using a by (simp_all add: sigma_range_def generateSigmaPoints_def Let_def)
  show ?thesis
    using g0 g by (simp add: predictSigmaPoints_def fold_update_nth)
qed

text \<open>
  C9, as the code has it. Once initialised, \<open>ProcessMeasurement\<close> compares no time
  stamps: it stores the new one, and runs \<open>Prediction\<close> with \<open>delta_t\<close> the difference
  to the stored one in seconds, whatever its sign, before the update of the sensor's
  type. A time stamp below the stored one makes that \<open>delta_t\<close> negative.
\<close>

theorem ProcessMeasurement_delta_t_unchecked:
  assumes "is_initialized_' this"
  shows
    "ProcessMeasurement this m =
       (if sensor_type_' m = RADAR
        then UpdateRadar
               (Prediction (this\<lparr>previous_timestamp_' := timestamp_' m\<rparr>)
                  (real_of_int (timestamp_' m - previous_timestamp_' this) / 1000000)) m
        else UpdateLidar
               (Prediction (this\<lparr>previous_timestamp_' := timestamp_' m\<rparr>)
                  (real_of_int (timestamp_' m - previous_timestamp_' this) / 1000000)) m)
     \<and> Xsig_pred_' (ProcessMeasurement this m) =
         Xsig_pred_'
           (predictSigmaPoints
              (generateSigmaPoints
                 (Prediction_augment (this\<lparr>previous_timestamp_' := timestamp_' m\<rparr>)))
              (real_of_int (timestamp_' m - previous_timestamp_' this) / 1000000))
     \<and> (timestamp_' m < previous_timestamp_' this \<longrightarrow>
          real_of_int (timestamp_' m - previous_timestamp_' this) / 1000000 < 0)"
proof -
  have dt: "ProcessMeasurement_delta_t this m =
      real_of_int (timestamp_' m - previous_timestamp_' this) / 1000000"
    by (simp add: ProcessMeasurement_delta_t_def)
  have "ProcessMeasurement this m =
       (if sensor_type_' m = RADAR
        then UpdateRadar
               (Prediction (this\<lparr>previous_timestamp_' := timestamp_' m\<rparr>)
                  (real_of_int (timestamp_' m - previous_timestamp_' this) / 1000000)) m
        else UpdateLidar
               (Prediction (this\<lparr>previous_timestamp_' := timestamp_' m\<rparr>)
                  (real_of_int (timestamp_' m - previous_timestamp_' this) / 1000000)) m)"
    using assms by (simp add: ProcessMeasurement_def Let_def dt)
  moreover note ProcessMeasurement_Xsig_pred [OF assms, of m, unfolded dt]
  moreover have "timestamp_' m < previous_timestamp_' this \<longrightarrow>
          real_of_int (timestamp_' m - previous_timestamp_' this) / 1000000 < 0"
    by simp
  ultimately show ?thesis
    by (intro conjI)
qed

lemma radar_started_fields:
  "is_initialized_' radar_started"
  "previous_timestamp_' radar_started = 1000000"
  "n_aug_' radar_started = 7"
  "length (Xsig_aug_' radar_started) = 15"
  "length (Xsig_pred_' radar_started) = 15"
  "x_' radar_started = [1, 0, 1, 0, 0]"
  "length (x_aug_' radar_started) = 7"
  "Xsig_pred_' radar_started ! 0 = [0, 0, 0, 0, 0]"
  by (simp_all add: radar_started_value constructed_value)

lemma late_laser_fields:
  "timestamp_' late_laser = 0"
  "sensor_type_' late_laser = LASER"
  by (simp_all add: late_laser_def)

lemma radar_started_late_point:
  "Xsig_pred_' (ProcessMeasurement radar_started late_laser) ! 0 =
     predictSigmaPoint (- 1) [1, 0, 1, 0, 0, 0, 0]"
proof -
  let ?s = "radar_started\<lparr>previous_timestamp_' := timestamp_' late_laser\<rparr>"
  have dt: "ProcessMeasurement_delta_t radar_started late_laser = - 1"
    by (simp add: ProcessMeasurement_delta_t_def radar_started_fields late_laser_fields)
  have s: "n_aug_' ?s = 7" "length (Xsig_aug_' ?s) = 15" "length (Xsig_pred_' ?s) = 15"
    "length (x_' ?s) = 5" "length (x_aug_' ?s) = 7" "x_' ?s = [1, 0, 1, 0, 0]"
    by (simp_all add: radar_started_fields)
  have "Xsig_pred_' (ProcessMeasurement radar_started late_laser) ! 0 =
      Xsig_pred_' (predictSigmaPoints (generateSigmaPoints (Prediction_augment ?s)) (- 1)) ! 0"
    using ProcessMeasurement_Xsig_pred [OF radar_started_fields(1), of late_laser]
    by (simp add: dt)
  also have "\<dots> = predictSigmaPoint (- 1) (x_' ?s @ [0, 0])"
    by (rule first_propagated_point [OF s(1-5)])
  finally show ?thesis
    by (simp add: s(6))
qed

text \<open>
  The theorem at a filter initialised by a radar measurement taken at 1 s, of an object
  at \<open>(1, 0)\<close> with speed 1, and handed a laser measurement stamped 0 s.
\<close>

theorem ProcessMeasurement_delta_t_unchecked_witness:
  "is_initialized_' radar_started
   \<and> timestamp_' late_laser < previous_timestamp_' radar_started
   \<and> real_of_int (timestamp_' late_laser - previous_timestamp_' radar_started) / 1000000 = - 1
   \<and> ProcessMeasurement radar_started late_laser =
       UpdateLidar (Prediction (radar_started\<lparr>previous_timestamp_' := 0\<rparr>) (- 1)) late_laser"
proof -
  note main = ProcessMeasurement_delta_t_unchecked [OF radar_started_fields(1), of late_laser]
  from main have "ProcessMeasurement radar_started late_laser =
       UpdateLidar (Prediction (radar_started\<lparr>previous_timestamp_' := 0\<rparr>) (- 1)) late_laser"
    by (simp add: radar_started_fields late_laser_fields)
  then show ?thesis
    by (simp add: radar_started_fields late_laser_fields)
qed

text \<open>
  C9 as the specification states it fails on that input. The measurement is stamped one
  second before the stored time stamp. It is not rejected: the first predicted sigma
  point, which was the constructor's zero column, is overwritten. The elapsed time is not
  clamped to zero either: the point is the mean \<open>(1, 0, 1, 0, 0)\<close> moved by \<open>delta_t = - 1\<close>,
  that is back to the position \<open>(0, 0)\<close>, where \<open>delta_t = 0\<close> would have left it at
  \<open>(1, 0)\<close>.
\<close>

theorem negative_delta_t_counterexample:
  "timestamp_' late_laser < previous_timestamp_' radar_started
   \<and> ProcessMeasurement_delta_t radar_started late_laser = - 1
   \<and> Xsig_pred_' radar_started ! 0 = [0, 0, 0, 0, 0]
   \<and> Xsig_pred_' (ProcessMeasurement radar_started late_laser) ! 0 = [0, 0, 1, 0, 0]
   \<and> predictSigmaPoint (- 1) [1, 0, 1, 0, 0, 0, 0] = [0, 0, 1, 0, 0]
   \<and> predictSigmaPoint 0 [1, 0, 1, 0, 0, 0, 0] = [1, 0, 1, 0, 0]"
proof -
  have neg: "predictSigmaPoint (- 1) [1, 0, 1, 0, 0, 0, 0] = [0, 0, 1, 0, 0]"
    and zero: "predictSigmaPoint 0 [1, 0, 1, 0, 0, 0, 0] = [1, 0, 1, 0, 0]"
    by (simp_all add: predictSigmaPoint_def Let_def)
  have dt: "ProcessMeasurement_delta_t radar_started late_laser = - 1"
    by (simp add: ProcessMeasurement_delta_t_def radar_started_fields late_laser_fields)
  show ?thesis
    using radar_started_late_point neg zero dt
    by (simp add: radar_started_fields late_laser_fields)
qed

section \<open>The radar measurement model\<close>

lemma Zsig_kept:
  "Zsig_' (predictMeasurment this R) = Zsig_' this"
  "Zsig_' (UpdateMeasurment this m) = Zsig_' this"
  by (simp_all add: predictMeasurment_def UpdateMeasurment_def Let_def)

lemma radar_range_zero_iff: "radar_range p_x p_y = 0 \<longleftrightarrow> p_x = 0 \<and> p_y = 0"
proof -
  have "p_x * p_x + p_y * p_y = 0 \<longleftrightarrow> p_x = 0 \<and> p_y = 0"
    using sum_squares_eq_zero_iff [of p_x p_y] by simp
  then show ?thesis
    by (simp add: radar_range_def)
qed

text \<open>
  C2, as the code has it. For every predicted sigma point \<open>(px, py, v, yaw, yawd)\<close>,
  \<open>UpdateRadar\<close> computes the range rate as
  \<open>(px v cos yaw + py v sin yaw) / sqrt (px\<^sup>2 + py\<^sup>2)\<close>, dividing by the range itself:
  there is no floor under the divisor, which is zero exactly when \<open>px = py = 0\<close>.
\<close>

theorem UpdateRadar_range_rate:
  assumes "n_aug_' this = 7" and "i < 15"
    and "Xsig_pred_' this ! i = [px, py, v, yaw, yawd]"
  shows
    "Zsig_' (UpdateRadar this m) ! i ! 0 = sqrt (px\<^sup>2 + py\<^sup>2)
     \<and> Zsig_' (UpdateRadar this m) ! i ! 2 =
         (px * v * cos yaw + py * v * sin yaw) / sqrt (px\<^sup>2 + py\<^sup>2)
     \<and> (sqrt (px\<^sup>2 + py\<^sup>2) = 0 \<longleftrightarrow> px = 0 \<and> py = 0)"
proof -
  have range: "sigma_range this = [0..<15]"
    using assms(1) by (simp add: sigma_range_def)
  have "Zsig_' (UpdateRadar this m) ! i = radar_point (Xsig_pred_' this ! i)"
    using assms(1,2)
    by (simp add: UpdateRadar_phases Zsig_kept UpdateRadar_project_def range fold_update_nth)
  then have "Zsig_' (UpdateRadar this m) ! i =
      [radar_range px py, atan2 py px,
       (px * (cos yaw * v) + py * (sin yaw * v)) / radar_range px py]"
    by (simp add: assms(3) radar_point_def Let_def)
  moreover have "radar_range px py = sqrt (px\<^sup>2 + py\<^sup>2)"
    by (simp add: radar_range_def power2_eq_square)
  moreover have "px * (cos yaw * v) + py * (sin yaw * v) = px * v * cos yaw + py * v * sin yaw"
    by (simp add: mult.commute mult.left_commute)
  ultimately show ?thesis
    using radar_range_zero_iff [of px py] by simp
qed

text \<open>
  The theorem at the run of the filter, had its second measurement been a radar one: the
  sigma point \<open>(1 + 3 sqrt 5, 1, 6 sqrt 5, 0, 0)\<close>.
\<close>

theorem UpdateRadar_range_rate_witness:
  "n_aug_' laser_predicted = 7
   \<and> Xsig_pred_' laser_predicted ! 6 = [1 + 3 * sqrt 5, 1, 6 * sqrt 5, 0, 0]
   \<and> Zsig_' (UpdateRadar laser_predicted second_radar) ! 6 ! 2 =
       ((1 + 3 * sqrt 5) * (6 * sqrt 5)) / sqrt ((1 + 3 * sqrt 5)\<^sup>2 + 1)
   \<and> sqrt ((1 + 3 * sqrt 5)\<^sup>2 + 1) \<noteq> 0"
proof -
  have n: "n_aug_' laser_predicted = 7"
    and c: "Xsig_pred_' laser_predicted ! 6 = [1 + 3 * sqrt 5, 1, 6 * sqrt 5, 0, 0]"
    by (simp_all add: laser_run_to_predicted Xsig_pred_example_def)
  note main = UpdateRadar_range_rate [OF n _ c, of second_radar]
  from main have "Zsig_' (UpdateRadar laser_predicted second_radar) ! 6 ! 2 =
       ((1 + 3 * sqrt 5) * (6 * sqrt 5)) / sqrt ((1 + 3 * sqrt 5)\<^sup>2 + 1)"
    by simp
  moreover from main have "sqrt ((1 + 3 * sqrt 5)\<^sup>2 + 1) \<noteq> 0"
    by simp
  ultimately show ?thesis
    using n c by simp
qed

text \<open>
  C2 as the specification states it fails. At \<open>px = py = 0\<close> the divisor of the source
  is 0. And whatever positive \<open>eps\<close> the range were floored at, the range rate of the
  source differs from the floored one at the point \<open>(eps / 2, 0)\<close> with speed 1 and
  heading 0: the source's is 1, the floored one is 1 / 2.
\<close>

theorem range_rate_floor_counterexample:
  "radar_range 0 0 = 0
   \<and> \<not> (\<exists>eps>0. \<forall>px py v yaw yawd.
           radar_point [px, py, v, yaw, yawd] ! 2 =
             (px * v * cos yaw + py * v * sin yaw) / max eps (sqrt (px\<^sup>2 + py\<^sup>2)))"
proof -
  have "radar_range 0 0 = 0"
    by (simp add: radar_range_def)
  moreover have "\<not> (\<exists>eps>0. \<forall>px py v yaw yawd.
           radar_point [px, py, v, yaw, yawd] ! 2 =
             (px * v * cos yaw + py * v * sin yaw) / max eps (sqrt (px\<^sup>2 + py\<^sup>2)))"
  proof
    assume "\<exists>eps>0. \<forall>px py v yaw yawd.
           radar_point [px, py, v, yaw, yawd] ! 2 =
             (px * v * cos yaw + py * v * sin yaw) / max eps (sqrt (px\<^sup>2 + py\<^sup>2))"
    then obtain eps :: real where pos: "0 < eps"
      and all: "\<And>px py v yaw yawd.
           radar_point [px, py, v, yaw, yawd] ! 2 =
             (px * v * cos yaw + py * v * sin yaw) / max eps (sqrt (px\<^sup>2 + py\<^sup>2))"
      by blast
    have code: "radar_point [eps / 2, 0, 1, 0, 0] ! 2 = 1"
      using pos by (simp add: radar_point_def radar_range_def Let_def)
    have spec: "(eps / 2 * 1 * cos 0 + 0 * 1 * sin 0) / max eps (sqrt ((eps / 2)\<^sup>2 + 0\<^sup>2)) = 1 / 2"
      using pos by (simp add: max_def)
    from all [of "eps / 2" 0 1 0 0] code spec show False
      by simp
  qed
  ultimately show ?thesis ..
qed

section \<open>The update at the run of the filter\<close>

lemma laser_z_diff:
  "UpdateMeasurment_z_diff laser_measured second_laser = [1, 0]"
  by (simp add: UpdateMeasurment_z_diff_def second_laser_def laser_measured_fields Let_def
      vsub_def angle_normalization_examples)

lemma K_S_K_example:
  "mmul (mmul K_example S_example) (mat_transpose K_example) =
     [[12288 / 1283, 0, 23424 / 1283, 0, 0],
      [0, 16 / 89, 0, 0, 0],
      [23424 / 1283, 0, 44652 / 1283, 0, 0],
      [0, 0, 0, 0, 0],
      [0, 0, 0, 0, 0]]"
  by (simp add: mmul_def mat_transpose_def vec_mat_def mcol_def ncols_def dot_def
      K_example_def S_example_def upt_rec)

lemma laser_updated_belief:
  assumes "UpdateMeasurment_z_diff laser_measured m = d"
  shows "x_' (UpdateMeasurment laser_measured m) = vadd [1, 1, 0, 0, 0] (mat_vec K_example d)"
    and "P_' (UpdateMeasurment laser_measured m) =
     [[144 / 6415, 0, 549 / 12830, 0, 0],
      [0, 9 / 445, 0, 0, 0],
      [549 / 12830, 0, 19209 / 12830, 0, 0],
      [0, 0, 0, 2 + pi * pi / 144, 1 + pi * pi / 72],
      [0, 0, 0, 1 + pi * pi / 72, 1 + pi * pi / 36]]"
  by (simp_all add: UpdateMeasurment_def Let_def laser_K assms laser_measured_fields
      K_S_K_example P_pred_example_def msub_def vsub_def)

section \<open>The sensor flags\<close>

lemma flags_ignored_phases:
  "Prediction_augment (this\<lparr>use_laser_' := a, use_radar_' := b\<rparr>) =
     (Prediction_augment this)\<lparr>use_laser_' := a, use_radar_' := b\<rparr>"
  "generateSigmaPoints (this\<lparr>use_laser_' := a, use_radar_' := b\<rparr>) =
     (generateSigmaPoints this)\<lparr>use_laser_' := a, use_radar_' := b\<rparr>"
  "predictSigmaPoints (this\<lparr>use_laser_' := a, use_radar_' := b\<rparr>) dt =
     (predictSigmaPoints this dt)\<lparr>use_laser_' := a, use_radar_' := b\<rparr>"
  "Prediction_recombine (this\<lparr>use_laser_' := a, use_radar_' := b\<rparr>) =
     (Prediction_recombine this)\<lparr>use_laser_' := a, use_radar_' := b\<rparr>"
  "UpdateLidar_project (this\<lparr>use_laser_' := a, use_radar_' := b\<rparr>) =
     (UpdateLidar_project this)\<lparr>use_laser_' := a, use_radar_' := b\<rparr>"
  "UpdateRadar_project (this\<lparr>use_laser_' := a, use_radar_' := b\<rparr>) =
     (UpdateRadar_project this)\<lparr>use_laser_' := a, use_radar_' := b\<rparr>"
  "predictMeasurment (this\<lparr>use_laser_' := a, use_radar_' := b\<rparr>) R =
     (predictMeasurment this R)\<lparr>use_laser_' := a, use_radar_' := b\<rparr>"
  "UpdateMeasurment (this\<lparr>use_laser_' := a, use_radar_' := b\<rparr>) m =
     (UpdateMeasurment this m)\<lparr>use_laser_' := a, use_radar_' := b\<rparr>"
  by (simp_all add: Prediction_augment_def generateSigmaPoints_def predictSigmaPoints_def
      Prediction_recombine_def predicted_mean_def predicted_covariance_def
      UpdateLidar_project_def UpdateRadar_project_def predictMeasurment_def
      UpdateMeasurment_def UpdateMeasurment_K_def UpdateMeasurment_Tc_def
      UpdateMeasurment_z_diff_def sigma_range_def Let_def)

lemma ProcessMeasurement_ignores_flags:
  "ProcessMeasurement (this\<lparr>use_laser_' := a, use_radar_' := b\<rparr>) m =
     (ProcessMeasurement this m)\<lparr>use_laser_' := a, use_radar_' := b\<rparr>"
proof (cases "is_initialized_' this")
  case False
  then show ?thesis
    by (cases "sensor_type_' m") (simp_all add: ProcessMeasurement_def Let_def)
next
  case True
  have stamp: "this\<lparr>use_laser_' := a, use_radar_' := b, previous_timestamp_' := t\<rparr> =
      this\<lparr>previous_timestamp_' := t, use_laser_' := a, use_radar_' := b\<rparr>" for t
    by simp
  have dt: "ProcessMeasurement_delta_t (this\<lparr>use_laser_' := a, use_radar_' := b\<rparr>) m =
      ProcessMeasurement_delta_t this m"
    by (simp add: ProcessMeasurement_delta_t_def)
  have pred: "measurement_predicted (this\<lparr>use_laser_' := a, use_radar_' := b\<rparr>) m =
      (measurement_predicted this m)\<lparr>use_laser_' := a, use_radar_' := b\<rparr>"
    by (simp add: measurement_predicted_def Let_def dt stamp Prediction_phases
        flags_ignored_phases)
  from True show ?thesis
    by (simp add: ProcessMeasurement_initialized pred flags_ignored_phases)
qed

lemma laser_only_off_value:
  "laser_only_off = laser_started\<lparr>use_laser_' := False, use_radar_' := True\<rparr>"
proof -
  have eq: "(UKF_constructor UKF_fresh)\<lparr>use_laser_' := False\<rparr> =
      (UKF_constructor UKF_fresh)\<lparr>use_laser_' := False, use_radar_' := True\<rparr>"
    by (simp add: constructed_value)
  have "laser_only_off =
      ProcessMeasurement
        ((UKF_constructor UKF_fresh)\<lparr>use_laser_' := False, use_radar_' := True\<rparr>) first_laser"
    unfolding laser_only_off_def
    by (rule arg_cong [where f = "\<lambda>s. ProcessMeasurement s first_laser", OF eq])
  also have "\<dots> =
      (ProcessMeasurement (UKF_constructor UKF_fresh) first_laser)
        \<lparr>use_laser_' := False, use_radar_' := True\<rparr>"
    by (rule ProcessMeasurement_ignores_flags)
  finally show ?thesis
    by (simp only: laser_started_def)
qed

lemma laser_started_initialized: "is_initialized_' laser_started"
  by (simp add: laser_started_value)

lemma second_laser_fields:
  "timestamp_' second_laser = 1000000"
  "sensor_type_' second_laser = LASER"
  by (simp_all add: second_laser_def)

lemma far_laser_fields:
  "timestamp_' far_laser = 1000000"
  "sensor_type_' far_laser = LASER"
  "raw_measurements_' far_laser = [1, 6]"
  by (simp_all add: far_laser_def)

text \<open>
  C1 fails on the code. The comments of the constructor say that with
  \<open>use_laser_\<close> false "laser measurements will be ignored (except during init)", but
  \<open>ProcessMeasurement\<close> never reads the flag. Here the constructed filter has
  \<open>use_laser_\<close> switched off, is initialised by the laser measurement \<open>(1, 1)\<close> at time
  0 and is handed the laser measurement \<open>(2, 1)\<close> one second later. The second call
  propagates and corrects: the mean moves from \<open>(1, 1, 0, 0, 0)\<close> to
  \<open>(2563 / 1283, 1, 2440 / 1283, 0, 0)\<close> and the position variance from \<open>3 / 10\<close> to
  \<open>144 / 6415\<close>.
\<close>

theorem disabled_laser_is_processed:
  "\<not> use_laser_' laser_only_off
   \<and> is_initialized_' laser_only_off
   \<and> sensor_type_' second_laser = LASER
   \<and> x_' laser_only_off = [1, 1, 0, 0, 0]
   \<and> P_' laser_only_off ! 0 ! 0 = 3 / 10
   \<and> \<not> use_laser_' (ProcessMeasurement laser_only_off second_laser)
   \<and> x_' (ProcessMeasurement laser_only_off second_laser) = [2563 / 1283, 1, 2440 / 1283, 0, 0]
   \<and> P_' (ProcessMeasurement laser_only_off second_laser) ! 0 ! 0 = 144 / 6415
   \<and> previous_timestamp_' (ProcessMeasurement laser_only_off second_laser) = 1000000"
proof -
  let ?r = "ProcessMeasurement laser_started second_laser"
  have off: "ProcessMeasurement laser_only_off second_laser =
      ?r\<lparr>use_laser_' := False, use_radar_' := True\<rparr>"
    by (simp add: laser_only_off_value ProcessMeasurement_ignores_flags)
  have r: "?r = UpdateMeasurment laser_measured second_laser"
    by (simp add: ProcessMeasurement_initialized laser_started_initialized
        laser_measurement_predicted second_laser_fields)
  have x: "x_' ?r = [2563 / 1283, 1, 2440 / 1283, 0, 0]"
    unfolding r by (simp add: laser_updated_belief [OF laser_z_diff] K_example_def
        vadd_def mat_vec_def dot_def)
  have P: "P_' ?r ! 0 ! 0 = 144 / 6415"
    unfolding r by (simp add: laser_updated_belief [OF laser_z_diff])
  have t: "previous_timestamp_' ?r = 1000000"
    unfolding r
    by (simp add: UpdateMeasurment_def Let_def laser_run_to_measured second_laser_fields)
  show ?thesis
    unfolding off
    using x P t
    by (simp add: laser_only_off_value laser_started_value constructed_value
        second_laser_fields)
qed

section \<open>The innovation of a laser measurement\<close>

text \<open>
  What \<open>UpdateMeasurment\<close> assigns, for either sensor type: the mean plus the gain
  times the innovation, the covariance minus \<open>K S K\<^sup>T\<close> with \<open>K = Tc S\<^sup>-\<^sup>1\<close>, and the
  statistic \<open>z_diff\<^sup>T S\<^sup>-\<^sup>1 z_diff\<close> in the slot of the sensor type, the other slot kept.
  The innovation is the measurement minus the predicted measurement whenever component 1
  of that difference lies within \<open>[-\<pi>, \<pi>]\<close>.
\<close>

lemma UpdateMeasurment_belief:
  "x_' (UpdateMeasurment this m) =
     vadd (x_' this) (mat_vec (UpdateMeasurment_K this) (UpdateMeasurment_z_diff this m))"
  "P_' (UpdateMeasurment this m) =
     msub (P_' this)
       (mmul (mmul (UpdateMeasurment_K this) (S_' this)) (mat_transpose (UpdateMeasurment_K this)))"
  "UpdateMeasurment_K this = mmul (UpdateMeasurment_Tc this) (inverse_mat (S_' this))"
  by (simp_all add: UpdateMeasurment_def UpdateMeasurment_K_def Let_def)

lemma UpdateMeasurment_NIS:
  "sensor_type_' m = LASER \<Longrightarrow>
     NIS_lidar (UpdateMeasurment this m) =
       dot (vec_mat (UpdateMeasurment_z_diff this m) (inverse_mat (S_' this)))
         (UpdateMeasurment_z_diff this m)
     \<and> NIS_radar (UpdateMeasurment this m) = NIS_radar this"
  "sensor_type_' m = RADAR \<Longrightarrow>
     NIS_radar (UpdateMeasurment this m) =
       dot (vec_mat (UpdateMeasurment_z_diff this m) (inverse_mat (S_' this)))
         (UpdateMeasurment_z_diff this m)
     \<and> NIS_lidar (UpdateMeasurment this m) = NIS_lidar this"
  by (simp_all add: UpdateMeasurment_def Let_def)

lemma UpdateMeasurment_z_diff_within_pi:
  assumes "- pi \<le> vsub (raw_measurements_' m) (z_pred_' this) ! 1"
    and "vsub (raw_measurements_' m) (z_pred_' this) ! 1 \<le> pi"
  shows "UpdateMeasurment_z_diff this m = vsub (raw_measurements_' m) (z_pred_' this)"
  using assms by (simp add: UpdateMeasurment_z_diff_def Let_def angle_normalization_id)

lemma angle_normalization_5: "angle_normalization 5 = 5 - 2 * pi"
proof -
  have lo: "3 \<le> pi" and hi: "pi < 4"
    using pi_ge_3 pi_less_4 by simp_all
  have "while_above_pi 5 = while_above_pi (5 - 2 * pi)"
    using hi by (simp add: while_above_pi.simps [of 5])
  also have "\<dots> = 5 - 2 * pi"
    using lo by (intro while_above_pi_le) linarith
  finally have "angle_normalization 5 = while_below_minus_pi (5 - 2 * pi)"
    by (simp add: angle_normalization_def)
  also have "\<dots> = 5 - 2 * pi"
    using hi by (intro while_below_minus_pi_ge) linarith
  finally show ?thesis .
qed

lemma far_laser_z_diff:
  "UpdateMeasurment_z_diff laser_measured far_laser = [0, 5 - 2 * pi]"
  by (simp add: UpdateMeasurment_z_diff_def far_laser_fields laser_measured_fields Let_def
      vsub_def angle_normalization_5)

text \<open>
  C7 fails on the code for a laser measurement. \<open>UpdateMeasurment\<close> runs the loops
  that the source comments as "angle normalization" on component 1 of the innovation
  whatever the sensor type, and for a laser measurement component 1 is the difference of
  two \<open>y\<close> positions, not of two bearings. The filter of the run predicts the measurement
  \<open>(1, 1)\<close>; handed the laser measurement \<open>(1, 6)\<close>, the innovation is \<open>(0, 5)\<close>,
  but the source corrects with \<open>(0, 5 - 2 \<pi>)\<close>, which is negative: the mean's \<open>y\<close>
  becomes \<open>1 + 80 / 89 * (5 - 2 \<pi>)\<close>, below 1, where predicted mean plus gain times
  innovation is \<open>1 + 400 / 89\<close>.
\<close>

theorem laser_innovation_is_wrapped:
  "is_initialized_' laser_started
   \<and> sensor_type_' far_laser = LASER
   \<and> raw_measurements_' far_laser = [1, 6]
   \<and> x_' (measurement_predicted laser_started far_laser) = [1, 1, 0, 0, 0]
   \<and> z_pred_' (measurement_predicted laser_started far_laser) = [1, 1]
   \<and> UpdateMeasurment_K (measurement_predicted laser_started far_laser) = K_example
   \<and> vsub (raw_measurements_' far_laser)
        (z_pred_' (measurement_predicted laser_started far_laser)) = [0, 5]
   \<and> UpdateMeasurment_z_diff (measurement_predicted laser_started far_laser) far_laser
       = [0, 5 - 2 * pi]
   \<and> x_' (ProcessMeasurement laser_started far_laser)
       = [1, 1 + 80 / 89 * (5 - 2 * pi), 0, 0, 0]
   \<and> vadd [1, 1, 0, 0, 0] (mat_vec K_example [0, 5]) = [1, 1 + 400 / 89, 0, 0, 0]
   \<and> 1 + 80 / 89 * (5 - 2 * pi) < 1"
proof -
  have mp: "measurement_predicted laser_started far_laser = laser_measured"
    by (rule laser_measurement_predicted) (simp_all add: far_laser_fields)
  have r: "ProcessMeasurement laser_started far_laser = UpdateMeasurment laser_measured far_laser"
    by (simp add: ProcessMeasurement_initialized laser_started_initialized mp)
  have x: "x_' (ProcessMeasurement laser_started far_laser) =
      [1, 1 + 80 / 89 * (5 - 2 * pi), 0, 0, 0]"
    unfolding r by (simp add: laser_updated_belief [OF far_laser_z_diff] K_example_def
        vadd_def mat_vec_def dot_def)
  have claimed: "vadd [1, 1, 0, 0, 0] (mat_vec K_example [0, 5]) = [1, 1 + 400 / 89, 0, 0, 0]"
    by (simp add: K_example_def vadd_def mat_vec_def dot_def)
  have neg: "1 + 80 / 89 * (5 - 2 * pi) < 1"
    using pi_ge_3 by simp
  show ?thesis
    unfolding mp
    using x claimed neg far_laser_z_diff laser_K
    by (simp add: laser_started_initialized far_laser_fields laser_measured_fields vsub_def)
qed

section \<open>A run with a covariance that is not positive definite\<close>

lemma broken_propagated_value:
  "broken_propagated = broken_sigma\<lparr>Xsig_pred_' := Xsig_pred_broken\<rparr>"
  by (simp add: broken_propagated_def predictSigmaPoints_def sigma_range_def
      broken_run_to_sigma Xsig_aug_broken_def Xsig_pred_broken_def
      predictSigmaPoint_def Let_def replicate_15 upt_0_15 list_update_numeral
      sqrt5_times_1000)

lemmas broken_run_to_propagated = broken_propagated_value broken_run_to_sigma

lemma angle_normalization_broken:
  "angle_normalization (sqrt 5 * (pi * pi) / 72) = sqrt 5 * (pi * pi) / 72"
  "angle_normalization (- (sqrt 5 * (pi * pi) / 72)) = - (sqrt 5 * (pi * pi) / 72)"
  "angle_normalization (sqrt 5 / 5) = sqrt 5 / 5"
  "angle_normalization (- (sqrt 5 / 5)) = - (sqrt 5 / 5)"
proof -
  have pi4: "pi \<le> 4"
    using pi_less_4 by simp
  have "sqrt 5 * pi \<le> 3 * 4"
    using sqrt5_le_3 pi4 pi_gt_zero by (intro mult_mono) simp_all
  then have "sqrt 5 * pi * pi \<le> 12 * pi"
    using pi_gt_zero by (simp add: mult_right_mono)
  then have a: "sqrt 5 * (pi * pi) / 72 \<le> pi"
    using pi_gt_zero by (simp add: mult.assoc)
  have b: "0 \<le> sqrt 5 * (pi * pi) / 72"
    by simp
  have c: "0 \<le> sqrt 5 / 5" "sqrt 5 / 5 \<le> pi"
    using sqrt5_le_3 pi_ge_3 by simp_all
  show "angle_normalization (sqrt 5 * (pi * pi) / 72) = sqrt 5 * (pi * pi) / 72"
    using a b pi_gt_zero by (intro angle_normalization_id) linarith+
  show "angle_normalization (- (sqrt 5 * (pi * pi) / 72)) = - (sqrt 5 * (pi * pi) / 72)"
    using a b pi_gt_zero by (intro angle_normalization_id) linarith+
  show "angle_normalization (sqrt 5 / 5) = sqrt 5 / 5"
    using c pi_gt_zero by (intro angle_normalization_id) linarith+
  show "angle_normalization (- (sqrt 5 / 5)) = - (sqrt 5 / 5)"
    using c pi_gt_zero by (intro angle_normalization_id) linarith+
qed

lemma broken_predicted_mean:
  "predicted_mean broken_propagated = [1, 1, 0, 0, 0]"
  by (simp add: predicted_mean_def sigma_range_def broken_run_to_propagated
      Xsig_pred_broken_def upt_0_15 vadd_def smult_def fill0_def)
    (simp add: field_simps)

lemma broken_predicted_covariance:
  "predicted_covariance (broken_propagated\<lparr>x_' := [1, 1, 0, 0, 0]\<rparr>) = P_pred_broken"
  by (simp add: predicted_covariance_def sigma_range_def broken_run_to_propagated
      Xsig_pred_broken_def
      upt_0_15 vadd_def vsub_def smult_def mfill0_def fill0_def madd_def outer_def Let_def
      list_update_numeral angle_normalization_examples angle_normalization_broken
      P_pred_broken_def)

lemma broken_predicted_value:
  "broken_predicted = broken_propagated\<lparr>x_' := [1, 1, 0, 0, 0], P_' := P_pred_broken\<rparr>"
  by (simp add: broken_predicted_def Prediction_recombine_def Let_def broken_predicted_mean
      broken_predicted_covariance)

lemmas broken_run_to_predicted = broken_predicted_value broken_run_to_propagated

lemma broken_projected_value:
  "broken_projected =
     broken_predicted\<lparr>n_z := 2, Zsig_' := Zsig_broken, z_pred_' := [0, 0],
       S_' := [[0, 0], [0, 0]]\<rparr>"
  by (simp add: broken_projected_def UpdateLidar_project_def broken_run_to_predicted
      Zsig_broken_def Xsig_pred_broken_def new_vec_def new_mat_def replicate_2)

lemma broken_z_pred:
  "predictMeasurment_z_pred broken_projected = [1, 1]"
  by (simp add: predictMeasurment_z_pred_def sigma_range_def broken_projected_value
      broken_run_to_predicted
      Zsig_broken_def Xsig_pred_broken_def upt_0_15 vadd_def smult_def fill0_def)
    (simp add: field_simps)

lemma broken_S:
  "predictMeasurment_S (broken_projected\<lparr>z_pred_' := [1, 1]\<rparr>) [[9 / 400, 0], [0, 9 / 400]] =
     S_broken"
  by (simp add: predictMeasurment_S_def sigma_range_def broken_projected_value
      broken_run_to_predicted S_broken_def
      Zsig_broken_def Xsig_pred_broken_def upt_0_15 vadd_def vsub_def smult_def
      mfill0_def fill0_def madd_def outer_def Let_def
      list_update_numeral angle_normalization_examples angle_normalization_broken)

lemma broken_measured_value:
  "broken_measured = broken_projected\<lparr>z_pred_' := [1, 1], S_' := S_broken\<rparr>"
proof -
  have R: "R_lidar_' broken_predicted = [[9 / 400, 0], [0, 9 / 400]]"
    by (simp add: broken_run_to_predicted)
  show ?thesis
    by (simp add: broken_measured_def predictMeasurment_phases Let_def R broken_z_pred broken_S)
qed

lemmas broken_run_to_measured =
  broken_measured_value broken_projected_value broken_run_to_predicted

lemma broken_Tc:
  "UpdateMeasurment_Tc broken_measured =
     [[32509 / 100, 0], [0, 1 / 25], [64809 / 100, 0], [0, 0], [0, 0]]"
  by (simp add: UpdateMeasurment_Tc_def sigma_range_def broken_run_to_measured
      Zsig_broken_def Xsig_pred_broken_def upt_0_15 vadd_def vsub_def smult_def
      mfill0_def fill0_def madd_def outer_def Let_def new_mat_def new_vec_def
      replicate_2 replicate_5
      list_update_numeral angle_normalization_examples angle_normalization_broken)

lemma S_broken_inverse:
  "inverse_mat S_broken = [[80 / 26009, 0], [0, 16]]"
  by (simp add: inverse_mat_def determinant_def adjugate_def S_broken_def)

lemma broken_measured_fields:
  "x_' broken_measured = [1, 1, 0, 0, 0]"
  "P_' broken_measured = P_pred_broken"
  "z_pred_' broken_measured = [1, 1]"
  "S_' broken_measured = S_broken"
  "P_aug_' broken_measured = P_aug_broken"
  by (simp_all add: broken_run_to_measured)

lemma broken_K: "UpdateMeasurment_K broken_measured = K_broken"
  by (simp add: UpdateMeasurment_K_def broken_Tc broken_measured_fields S_broken_inverse
      K_broken_def mmul_def vec_mat_def ncols_def mcol_def dot_def upt_rec)

lemma broken_started_fields:
  "is_initialized_' broken_started"
  "previous_timestamp_' broken_started = 0"
  "x_' broken_started = [1, 1, 0, 0, 0]"
  "P_' broken_started ! 0 ! 0 = - 1"
  by (simp_all add: broken_started_def laser_started_value constructed_value)

lemma broken_measurement_predicted:
  "measurement_predicted broken_started second_laser = broken_measured"
proof -
  have dt: "ProcessMeasurement_delta_t broken_started second_laser = 1"
    by (simp add: ProcessMeasurement_delta_t_def second_laser_fields broken_started_fields)
  have "Prediction (broken_started\<lparr>previous_timestamp_' := timestamp_' second_laser\<rparr>) 1 =
      broken_predicted"
    by (simp add: Prediction_phases broken_predicted_def broken_propagated_def broken_sigma_def
        broken_augmented_def broken_stamped_def second_laser_fields)
  then show ?thesis
    by (simp add: measurement_predicted_def dt second_laser_fields Let_def broken_measured_def
        broken_projected_def)
qed

lemma broken_z_diff:
  "UpdateMeasurment_z_diff broken_measured second_laser = [1, 0]"
  by (simp add: UpdateMeasurment_z_diff_def second_laser_def broken_measured_fields Let_def
      vsub_def angle_normalization_examples)

lemma K_S_K_broken:
  "mmul (mmul K_broken S_broken) (mat_transpose K_broken) =
     [[1056835081 / 3251125, 0, 2106875781 / 3251125, 0, 0],
      [0, 16 / 625, 0, 0, 0],
      [2106875781 / 3251125, 0, 4200206481 / 3251125, 0, 0],
      [0, 0, 0, 0, 0],
      [0, 0, 0, 0, 0]]"
  by (simp add: mmul_def mat_transpose_def vec_mat_def mcol_def ncols_def dot_def
      K_broken_def S_broken_def upt_rec)

section \<open>No validation before the update\<close>

lemma determinant_S_broken: "determinant S_broken \<noteq> 0"
  by (simp add: determinant_def S_broken_def)

text \<open>
  C3, as the code has it. Once initialised, \<open>ProcessMeasurement\<close> validates nothing and
  rejects nothing: whatever the augmented covariance is, symmetric positive definite or
  not, the mean is overwritten with the predicted mean plus \<open>K\<close> times the innovation and
  the covariance with the predicted covariance minus \<open>K S K\<^sup>T\<close>, where the prediction
  comes from the sigma points that \<open>generateSigmaPoints\<close> built from whatever
  \<open>llt().matrixL()\<close> returned. The statement is for a predicted measurement covariance
  with a determinant other than zero; for a singular one the source checks nothing
  either, and what \<^verbatim>\<open>inverse()\<close> then returns is not a real number.
\<close>

theorem update_is_unconditional:
  assumes "is_initialized_' this"
    and "determinant (S_' (measurement_predicted this m)) \<noteq> 0"
  shows
    "x_' (ProcessMeasurement this m) =
       vadd (x_' (measurement_predicted this m))
         (mat_vec (UpdateMeasurment_K (measurement_predicted this m))
            (UpdateMeasurment_z_diff (measurement_predicted this m) m))
     \<and> P_' (ProcessMeasurement this m) =
       msub (P_' (measurement_predicted this m))
         (mmul (mmul (UpdateMeasurment_K (measurement_predicted this m))
                  (S_' (measurement_predicted this m)))
            (mat_transpose (UpdateMeasurment_K (measurement_predicted this m))))
     \<and> Xsig_aug_' (ProcessMeasurement this m) =
       Xsig_aug_'
         (generateSigmaPoints
            (Prediction_augment (this\<lparr>previous_timestamp_' := timestamp_' m\<rparr>)))"
proof -
  have aug: "Xsig_aug_' (measurement_predicted this m) =
       Xsig_aug_'
         (generateSigmaPoints
            (Prediction_augment (this\<lparr>previous_timestamp_' := timestamp_' m\<rparr>)))"
    by (simp add: measurement_predicted_def Let_def Prediction_phases predictMeasurment_def
        UpdateLidar_project_def UpdateRadar_project_def Prediction_recombine_def
        predictSigmaPoints_def)
  show ?thesis
    using assms(1) aug
    by (simp add: ProcessMeasurement_initialized UpdateMeasurment_def Let_def)
qed

text \<open>
  The theorem at a filter whose belief covariance has the entry \<open>- 1\<close> for the variance
  of \<open>x\<close>, handed the laser measurement \<open>(2, 1)\<close> of the run.
\<close>

theorem update_is_unconditional_witness:
  "is_initialized_' broken_started
   \<and> S_' (measurement_predicted broken_started second_laser) = S_broken
   \<and> determinant S_broken \<noteq> 0
   \<and> x_' (ProcessMeasurement broken_started second_laser) =
       [260081 / 130045, 1, 259236 / 130045, 0, 0]
   \<and> P_' (ProcessMeasurement broken_started second_laser) ! 0 ! 0 = 292581 / 13004500"
proof -
  have S: "S_' (measurement_predicted broken_started second_laser) = S_broken"
    by (simp add: broken_measurement_predicted broken_measured_fields)
  have det: "determinant (S_' (measurement_predicted broken_started second_laser)) \<noteq> 0"
    unfolding S by (rule determinant_S_broken)
  note main = update_is_unconditional [OF broken_started_fields(1) det]
  from main have "x_' (ProcessMeasurement broken_started second_laser) =
       vadd (x_' broken_measured)
         (mat_vec (UpdateMeasurment_K broken_measured)
            (UpdateMeasurment_z_diff broken_measured second_laser))"
    by (simp add: broken_measurement_predicted)
  then have x: "x_' (ProcessMeasurement broken_started second_laser) =
       [260081 / 130045, 1, 259236 / 130045, 0, 0]"
    by (simp add: broken_measured_fields broken_K broken_z_diff K_broken_def
        vadd_def mat_vec_def dot_def)
  from main have "P_' (ProcessMeasurement broken_started second_laser) =
       msub (P_' broken_measured)
         (mmul (mmul (UpdateMeasurment_K broken_measured) (S_' broken_measured))
            (mat_transpose (UpdateMeasurment_K broken_measured)))"
    by (simp add: broken_measurement_predicted)
  then have P: "P_' (ProcessMeasurement broken_started second_laser) ! 0 ! 0 =
      292581 / 13004500"
    by (simp add: broken_measured_fields broken_K K_S_K_broken P_pred_broken_def
        msub_def vsub_def)
  show ?thesis
    using S x P determinant_S_broken broken_started_fields(1) by simp
qed

text \<open>
  C3 as the specification states it fails on that input. The augmented covariance that
  \<open>Prediction\<close> builds is not positive definite (its quadratic form is \<open>- 1\<close> at the
  first unit vector), and the first pivot of the factorisation is not positive, so
  \<open>llt\<close> stops at once, without success, and \<open>matrixL()\<close> is the lower triangle
  of the covariance itself rather than a square root of it. The update is not rejected: the mean moves from
  \<open>(1, 1, 0, 0, 0)\<close> to \<open>(260081 / 130045, 1, 259236 / 130045, 0, 0)\<close>, and the
  variance of \<open>x\<close> from \<open>- 1\<close> to \<open>292581 / 13004500\<close>.
\<close>

theorem non_spd_update_counterexample:
  "is_initialized_' broken_started
   \<and> P_aug_' (measurement_predicted broken_started second_laser) = P_aug_broken
   \<and> dot [1, 0, 0, 0, 0, 0, 0] (mat_vec P_aug_broken [1, 0, 0, 0, 0, 0, 0]) = - 1
   \<and> llt_pivot P_aug_broken [] 0 = - 1
   \<and> \<not> llt_info_Success P_aug_broken
   \<and> llt_matrixL P_aug_broken = L_broken
   \<and> mmul L_broken (mat_transpose L_broken) \<noteq> P_aug_broken
   \<and> x_' broken_started = [1, 1, 0, 0, 0]
   \<and> P_' broken_started ! 0 ! 0 = - 1
   \<and> x_' (ProcessMeasurement broken_started second_laser) =
       [260081 / 130045, 1, 259236 / 130045, 0, 0]
   \<and> P_' (ProcessMeasurement broken_started second_laser) ! 0 ! 0 = 292581 / 13004500"
proof -
  have r: "ProcessMeasurement broken_started second_laser =
      UpdateMeasurment broken_measured second_laser"
    by (simp add: ProcessMeasurement_initialized broken_started_fields
        broken_measurement_predicted)
  have x: "x_' (ProcessMeasurement broken_started second_laser) =
       [260081 / 130045, 1, 259236 / 130045, 0, 0]"
    unfolding r
    by (simp add: UpdateMeasurment_def Let_def broken_measured_fields broken_K broken_z_diff
        K_broken_def vadd_def mat_vec_def dot_def)
  have P: "P_' (ProcessMeasurement broken_started second_laser) ! 0 ! 0 = 292581 / 13004500"
    unfolding r
    by (simp add: UpdateMeasurment_def Let_def broken_measured_fields broken_K K_S_K_broken
        P_pred_broken_def msub_def vsub_def)
  have quad: "dot [1, 0, 0, 0, 0, 0, 0] (mat_vec P_aug_broken [1, 0, 0, 0, 0, 0, 0]) = - 1"
    by (simp add: dot_def mat_vec_def P_aug_broken_def)
  have pivot: "llt_pivot P_aug_broken [] 0 = - 1"
    by (simp add: llt_pivot_def P_aug_broken_def)
  have "(mmul L_broken (mat_transpose L_broken)) ! 0 ! 0 = 1"
    by (simp add: mmul_def mat_transpose_def vec_mat_def mcol_def ncols_def dot_def
        L_broken_def upt_0_7)
  moreover have "P_aug_broken ! 0 ! 0 = - 1"
    by (simp add: P_aug_broken_def)
  ultimately have ne: "mmul L_broken (mat_transpose L_broken) \<noteq> P_aug_broken"
    by auto
  show ?thesis
    using x P quad pivot ne llt_broken llt_broken_fails
    by (simp add: broken_measurement_predicted broken_measured_fields broken_started_fields)
qed

end
